theory Spec2Isabelle
  imports Complex_Main "HOL-Library.Word"
begin

unbundle bit_operations_syntax

section \<open>Machine types\<close>

text \<open>
  The driver is compiled by Emscripten for wasm32, where \<open>int\<close>, \<open>unsigned\<close>,
  \<open>long\<close> and \<open>size_t\<close> are all 32 bits wide. Every C integer is a word of its
  width: \<open>+\<close> and \<open>-\<close> wrap around, \<open>sint\<close> reads a word as a signed value and
  \<open>unat\<close> as an unsigned one. A conversion between \<open>int\<close> and \<open>unsigned\<close> keeps
  the bits, so both are the same type here and only the comparisons differ
  (\<open>\<le>s\<close> and \<open><s\<close> are the signed ones).
\<close>

type_synonym c_int = "32 word"
type_synonym c_unsigned = "32 word"
type_synonym c_long = "32 word"
type_synonym uint32_t = "32 word"
type_synonym int16_t = "16 word"
type_synonym uint8_t = "8 word"

section \<open>The virtual gamepad table\<close>

text \<open>
  \<open>struct rwebinput_code_to_key\<close>: the logical button id (a \<open>const int\<close>) and one
  down flag per user. The field \<open>id\<close> is called \<open>id_field\<close> here, \<open>id\<close> being the
  identity function of HOL.
\<close>

record rwebinput_code_to_key =
  id_field :: c_int
  down_1 :: c_int
  down_2 :: c_int
  down_3 :: c_int
  down_4 :: c_int

text \<open>One row of the initialiser of \<open>stuff\<close>: \<open>{ n, 0, 0, 0, 0 }\<close>.\<close>

definition stuff_row :: "c_int \<Rightarrow> rwebinput_code_to_key" where
  "stuff_row n = \<lparr>id_field = n, down_1 = 0, down_2 = 0, down_3 = 0, down_4 = 0\<rparr>"

text \<open>
  The global array \<open>stuff\<close> as the program starts. It is process-wide mutable state:
  the functions below take the current table and return the new one.
\<close>

definition stuff :: "rwebinput_code_to_key list" where
  "stuff =
    [stuff_row 0, stuff_row 1, stuff_row 2, stuff_row 3, stuff_row 4, stuff_row 5,
     stuff_row 6, stuff_row 7, stuff_row 8, stuff_row 9, stuff_row 10, stuff_row 11,
     stuff_row 12, stuff_row 13, stuff_row 14, stuff_row 15, stuff_row 16, stuff_row 17,
     stuff_row 18, stuff_row 19, stuff_row 20, stuff_row 21, stuff_row 22, stuff_row 23,
     stuff_row 24, stuff_row 25, stuff_row 26, stuff_row 27, stuff_row 28]"

text \<open>
  The body of the \<open>if (stuff[i].id == key)\<close> branch of \<open>simulate_input\<close>: the column
  of the user is written; a user outside 0..3 writes nothing.
\<close>

definition set_down :: "c_int \<Rightarrow> c_int \<Rightarrow> rwebinput_code_to_key \<Rightarrow> rwebinput_code_to_key" where
  "set_down user down_v r =
     (if user = 0 then r\<lparr>down_1 := down_v\<rparr>
      else if user = 1 then r\<lparr>down_2 := down_v\<rparr>
      else if user = 2 then r\<lparr>down_3 := down_v\<rparr>
      else if user = 3 then r\<lparr>down_4 := down_v\<rparr>
      else r)"

text \<open>
  \<open>simulate_input\<close>: the loop over the rows stops (\<open>break\<close>) at the first row whose id
  is the key.
\<close>

fun simulate_input ::
  "c_int \<Rightarrow> c_int \<Rightarrow> c_int \<Rightarrow> rwebinput_code_to_key list \<Rightarrow> rwebinput_code_to_key list"
where
  "simulate_input user key_v down_v [] = []"
| "simulate_input user key_v down_v (r # rs) =
     (if id_field r = key_v then set_down user down_v r # rs
      else r # simulate_input user key_v down_v rs)"

text \<open>
  The loop of \<open>is_pressed_hehe\<close>. A matching row returns the column of the user; for
  a user outside 0..3 no \<open>return\<close> is reached in the row and the loop goes on.
\<close>

fun is_pressed_loop :: "rwebinput_code_to_key list \<Rightarrow> c_int \<Rightarrow> c_int \<Rightarrow> c_int" where
  "is_pressed_loop [] user ident = 0"
| "is_pressed_loop (r # rs) user ident =
     (if id_field r = ident then
        (if user = 0 then down_1 r
         else if user = 1 then down_2 r
         else if user = 2 then down_3 r
         else if user = 3 then down_4 r
         else is_pressed_loop rs user ident)
      else is_pressed_loop rs user ident)"

text \<open>\<open>is_pressed_hehe\<close>: \<open>if (id >= 24) return 0;\<close> is a signed comparison.\<close>

definition is_pressed_hehe :: "rwebinput_code_to_key list \<Rightarrow> c_int \<Rightarrow> c_int \<Rightarrow> c_int" where
  "is_pressed_hehe tbl user ident =
     (if 24 \<le>s ident then 0 else is_pressed_loop tbl user ident)"

text \<open>
  The ids of a table are constant: every table the program can reach has the id column
  of the initialiser.
\<close>

definition table_ids_ok :: "rwebinput_code_to_key list \<Rightarrow> bool" where
  "table_ids_ok tbl = (map id_field tbl = map id_field stuff)"

text \<open>The down flag of user \<open>u\<close> (0..3) in a row.\<close>

definition down_of :: "nat \<Rightarrow> rwebinput_code_to_key \<Rightarrow> c_int" where
  "down_of u r =
     (if u = 0 then down_1 r else if u = 1 then down_2 r
      else if u = 2 then down_3 r else down_4 r)"

text \<open>
  The interface of \<open>simulate_input\<close> takes \<open>down\<close> in \<open>{0, 1}\<close>; a table written
  only through it holds flags that are 0 or 1.
\<close>

definition row_flags_boolean :: "rwebinput_code_to_key \<Rightarrow> bool" where
  "row_flags_boolean r =
     ((down_1 r = 0 \<or> down_1 r = 1) \<and> (down_2 r = 0 \<or> down_2 r = 1) \<and>
      (down_3 r = 0 \<or> down_3 r = 1) \<and> (down_4 r = 0 \<or> down_4 r = 1))"

definition flags_boolean :: "rwebinput_code_to_key list \<Rightarrow> bool" where
  "flags_boolean tbl = list_all row_flags_boolean tbl"

section \<open>The driver state\<close>

text \<open>
  The event types of \<open>emscripten/html5.h\<close>. The driver only compares an event type
  with these names, so they are the constructors of a datatype.
\<close>

datatype emscripten_event_type =
    EMSCRIPTEN_EVENT_KEYPRESS
  | EMSCRIPTEN_EVENT_KEYDOWN
  | EMSCRIPTEN_EVENT_KEYUP
  | EMSCRIPTEN_EVENT_MOUSEDOWN
  | EMSCRIPTEN_EVENT_MOUSEUP
  | EMSCRIPTEN_EVENT_MOUSEMOVE
  | EMSCRIPTEN_EVENT_WHEEL
  | EMSCRIPTEN_EVENT_TOUCHSTART
  | EMSCRIPTEN_EVENT_TOUCHEND
  | EMSCRIPTEN_EVENT_TOUCHMOVE
  | EMSCRIPTEN_EVENT_TOUCHCANCEL

text \<open>
  The fields of the Emscripten event structures that the driver reads. \<open>code\<close> is the
  raw \<open>char[32]\<close> buffer of a keyboard event; the field \<open>identifier\<close> of a touch point
  is called \<open>touch_identifier\<close>.
\<close>

record EmscriptenKeyboardEvent =
  code :: string

record EmscriptenMouseEvent =
  button :: "16 word"
  movementX :: c_long
  movementY :: c_long
  targetX :: c_long
  targetY :: c_long

record 'd EmscriptenWheelEvent =
  deltaX :: 'd
  deltaY :: 'd

record EmscriptenTouchPoint =
  touch_identifier :: c_long
  isChanged :: bool
  canvasX :: c_long
  canvasY :: c_long

text \<open>\<open>touches\<close> holds the first \<open>numTouches\<close> entries of the array of touch points.\<close>

record EmscriptenTouchEvent =
  touches :: "EmscriptenTouchPoint list"

record rwebinput_keyboard_event =
  type :: emscripten_event_type
  event :: EmscriptenKeyboardEvent

text \<open>\<open>events\<close> is the array the pointer of the queue refers to.\<close>

record rwebinput_keyboard_event_queue =
  events :: "rwebinput_keyboard_event list"
  count :: nat
  max_size :: nat

record rwebinput_touch =
  touch_id :: c_long
  last_canvasX :: c_long
  last_canvasY :: c_long
  down :: bool
  last_touchdown_id :: c_long
  last_touchdown_location :: c_long
  clicked_yet :: bool

text \<open>
  The scroll counters are C doubles. The driver copies them, adds to them, stores the
  constant 0 and compares them with 0.0, and nothing else, so the model leaves their
  type \<open>'d\<close> open: any type with a zero, an addition and an order. The fields \<open>x\<close>
  and \<open>y\<close> are called \<open>mouse_x\<close> and \<open>mouse_y\<close>.
\<close>

record 'd rwebinput_mouse_state =
  pending_scroll_x :: 'd
  pending_scroll_y :: 'd
  scroll_x :: 'd
  scroll_y :: 'd
  mouse_x :: c_int
  mouse_y :: c_int
  pending_delta_x :: c_int
  pending_delta_y :: c_int
  delta_x :: c_int
  delta_y :: c_int
  buttons :: uint8_t

record 'd rwebinput_input =
  touch :: rwebinput_touch
  mouse :: "'d rwebinput_mouse_state"
  keyboard :: rwebinput_keyboard_event_queue
  keys :: "bool list"

section \<open>Constants of the host headers\<close>

text \<open>
  The driver includes \<open>libretro.h\<close> and RetroArch's \<open>input_defines.h\<close>, which are
  not among its sources. The constants below carry the values of those headers, which
  are part of the public libretro interface. The driver only compares the device and
  id constants with its arguments, and no theorem below depends on the value of a key
  or of \<open>RETROK_LAST\<close>.
\<close>

definition RETRO_DEVICE_JOYPAD :: c_unsigned where "RETRO_DEVICE_JOYPAD = 1"
definition RETRO_DEVICE_MOUSE :: c_unsigned where "RETRO_DEVICE_MOUSE = 2"
definition RETRO_DEVICE_KEYBOARD :: c_unsigned where "RETRO_DEVICE_KEYBOARD = 3"
definition RETRO_DEVICE_ANALOG :: c_unsigned where "RETRO_DEVICE_ANALOG = 5"
definition RETRO_DEVICE_POINTER :: c_unsigned where "RETRO_DEVICE_POINTER = 6"

definition RARCH_DEVICE_MOUSE_SCREEN :: c_unsigned where
  "RARCH_DEVICE_MOUSE_SCREEN = RETRO_DEVICE_MOUSE OR 0x10000"
definition RARCH_DEVICE_POINTER_SCREEN :: c_unsigned where
  "RARCH_DEVICE_POINTER_SCREEN = RETRO_DEVICE_POINTER OR 0x10000"

definition RETRO_DEVICE_ID_JOYPAD_MASK :: c_unsigned where "RETRO_DEVICE_ID_JOYPAD_MASK = 256"

definition RETRO_DEVICE_ID_MOUSE_X :: c_unsigned where "RETRO_DEVICE_ID_MOUSE_X = 0"
definition RETRO_DEVICE_ID_MOUSE_Y :: c_unsigned where "RETRO_DEVICE_ID_MOUSE_Y = 1"
definition RETRO_DEVICE_ID_MOUSE_LEFT :: c_unsigned where "RETRO_DEVICE_ID_MOUSE_LEFT = 2"
definition RETRO_DEVICE_ID_MOUSE_RIGHT :: c_unsigned where "RETRO_DEVICE_ID_MOUSE_RIGHT = 3"
definition RETRO_DEVICE_ID_MOUSE_WHEELUP :: c_unsigned where "RETRO_DEVICE_ID_MOUSE_WHEELUP = 4"
definition RETRO_DEVICE_ID_MOUSE_WHEELDOWN :: c_unsigned where
  "RETRO_DEVICE_ID_MOUSE_WHEELDOWN = 5"
definition RETRO_DEVICE_ID_MOUSE_MIDDLE :: c_unsigned where "RETRO_DEVICE_ID_MOUSE_MIDDLE = 6"
definition RETRO_DEVICE_ID_MOUSE_HORIZ_WHEELUP :: c_unsigned where
  "RETRO_DEVICE_ID_MOUSE_HORIZ_WHEELUP = 7"
definition RETRO_DEVICE_ID_MOUSE_HORIZ_WHEELDOWN :: c_unsigned where
  "RETRO_DEVICE_ID_MOUSE_HORIZ_WHEELDOWN = 8"
definition RETRO_DEVICE_ID_MOUSE_BUTTON_4 :: c_unsigned where
  "RETRO_DEVICE_ID_MOUSE_BUTTON_4 = 9"
definition RETRO_DEVICE_ID_MOUSE_BUTTON_5 :: c_unsigned where
  "RETRO_DEVICE_ID_MOUSE_BUTTON_5 = 10"

definition RETRO_DEVICE_ID_POINTER_X :: c_unsigned where "RETRO_DEVICE_ID_POINTER_X = 0"
definition RETRO_DEVICE_ID_POINTER_Y :: c_unsigned where "RETRO_DEVICE_ID_POINTER_Y = 1"
definition RETRO_DEVICE_ID_POINTER_PRESSED :: c_unsigned where
  "RETRO_DEVICE_ID_POINTER_PRESSED = 2"
definition RETRO_DEVICE_ID_LIGHTGUN_IS_OFFSCREEN :: c_unsigned where
  "RETRO_DEVICE_ID_LIGHTGUN_IS_OFFSCREEN = 15"

text \<open>
  Modelled from the spec: \<open>RARCH_FIRST_CUSTOM_BIND\<close> is declared in
  \<open>input_defines.h\<close>, which is not among the sources. The spec places the digital
  joypad buttons at ids 0..15 and the first analog half-axis at id 16.
\<close>

definition RARCH_FIRST_CUSTOM_BIND :: c_unsigned where "RARCH_FIRST_CUSTOM_BIND = 16"

text \<open>The mouse buttons of the source file itself.\<close>

definition RWEBINPUT_MOUSE_BTNL :: nat where "RWEBINPUT_MOUSE_BTNL = 0"
definition RWEBINPUT_MOUSE_BTNM :: nat where "RWEBINPUT_MOUSE_BTNM = 1"
definition RWEBINPUT_MOUSE_BTNR :: nat where "RWEBINPUT_MOUSE_BTNR = 2"
definition RWEBINPUT_MOUSE_BTN4 :: nat where "RWEBINPUT_MOUSE_BTN4 = 3"
definition RWEBINPUT_MOUSE_BTN5 :: nat where "RWEBINPUT_MOUSE_BTN5 = 4"

text \<open>\<open>enum retro_key\<close> of \<open>libretro.h\<close>, for the keys the driver names.\<close>

type_synonym retro_key = "32 word"

definition RETROK_UNKNOWN :: retro_key where "RETROK_UNKNOWN = 0"
definition RETROK_BACKSPACE :: retro_key where "RETROK_BACKSPACE = 8"
definition RETROK_TAB :: retro_key where "RETROK_TAB = 9"
definition RETROK_RETURN :: retro_key where "RETROK_RETURN = 13"
definition RETROK_PAUSE :: retro_key where "RETROK_PAUSE = 19"
definition RETROK_ESCAPE :: retro_key where "RETROK_ESCAPE = 27"
definition RETROK_SPACE :: retro_key where "RETROK_SPACE = 32"
definition RETROK_QUOTE :: retro_key where "RETROK_QUOTE = 39"
definition RETROK_COMMA :: retro_key where "RETROK_COMMA = 44"
definition RETROK_MINUS :: retro_key where "RETROK_MINUS = 45"
definition RETROK_PERIOD :: retro_key where "RETROK_PERIOD = 46"
definition RETROK_SLASH :: retro_key where "RETROK_SLASH = 47"
definition RETROK_0 :: retro_key where "RETROK_0 = 48"
definition RETROK_1 :: retro_key where "RETROK_1 = 49"
definition RETROK_2 :: retro_key where "RETROK_2 = 50"
definition RETROK_3 :: retro_key where "RETROK_3 = 51"
definition RETROK_4 :: retro_key where "RETROK_4 = 52"
definition RETROK_5 :: retro_key where "RETROK_5 = 53"
definition RETROK_6 :: retro_key where "RETROK_6 = 54"
definition RETROK_7 :: retro_key where "RETROK_7 = 55"
definition RETROK_8 :: retro_key where "RETROK_8 = 56"
definition RETROK_9 :: retro_key where "RETROK_9 = 57"
definition RETROK_SEMICOLON :: retro_key where "RETROK_SEMICOLON = 59"
definition RETROK_EQUALS :: retro_key where "RETROK_EQUALS = 61"
definition RETROK_LEFTBRACKET :: retro_key where "RETROK_LEFTBRACKET = 91"
definition RETROK_BACKSLASH :: retro_key where "RETROK_BACKSLASH = 92"
definition RETROK_RIGHTBRACKET :: retro_key where "RETROK_RIGHTBRACKET = 93"
definition RETROK_BACKQUOTE :: retro_key where "RETROK_BACKQUOTE = 96"
definition RETROK_a :: retro_key where "RETROK_a = 97"
definition RETROK_b :: retro_key where "RETROK_b = 98"
definition RETROK_c :: retro_key where "RETROK_c = 99"
definition RETROK_d :: retro_key where "RETROK_d = 100"
definition RETROK_e :: retro_key where "RETROK_e = 101"
definition RETROK_f :: retro_key where "RETROK_f = 102"
definition RETROK_g :: retro_key where "RETROK_g = 103"
definition RETROK_h :: retro_key where "RETROK_h = 104"
definition RETROK_i :: retro_key where "RETROK_i = 105"
definition RETROK_j :: retro_key where "RETROK_j = 106"
definition RETROK_k :: retro_key where "RETROK_k = 107"
definition RETROK_l :: retro_key where "RETROK_l = 108"
definition RETROK_m :: retro_key where "RETROK_m = 109"
definition RETROK_n :: retro_key where "RETROK_n = 110"
definition RETROK_o :: retro_key where "RETROK_o = 111"
definition RETROK_p :: retro_key where "RETROK_p = 112"
definition RETROK_q :: retro_key where "RETROK_q = 113"
definition RETROK_r :: retro_key where "RETROK_r = 114"
definition RETROK_s :: retro_key where "RETROK_s = 115"
definition RETROK_t :: retro_key where "RETROK_t = 116"
definition RETROK_u :: retro_key where "RETROK_u = 117"
definition RETROK_v :: retro_key where "RETROK_v = 118"
definition RETROK_w :: retro_key where "RETROK_w = 119"
definition RETROK_x :: retro_key where "RETROK_x = 120"
definition RETROK_y :: retro_key where "RETROK_y = 121"
definition RETROK_z :: retro_key where "RETROK_z = 122"
definition RETROK_DELETE :: retro_key where "RETROK_DELETE = 127"
definition RETROK_KP0 :: retro_key where "RETROK_KP0 = 256"
definition RETROK_KP1 :: retro_key where "RETROK_KP1 = 257"
definition RETROK_KP2 :: retro_key where "RETROK_KP2 = 258"
definition RETROK_KP3 :: retro_key where "RETROK_KP3 = 259"
definition RETROK_KP4 :: retro_key where "RETROK_KP4 = 260"
definition RETROK_KP5 :: retro_key where "RETROK_KP5 = 261"
definition RETROK_KP6 :: retro_key where "RETROK_KP6 = 262"
definition RETROK_KP7 :: retro_key where "RETROK_KP7 = 263"
definition RETROK_KP8 :: retro_key where "RETROK_KP8 = 264"
definition RETROK_KP9 :: retro_key where "RETROK_KP9 = 265"
definition RETROK_KP_PERIOD :: retro_key where "RETROK_KP_PERIOD = 266"
definition RETROK_KP_DIVIDE :: retro_key where "RETROK_KP_DIVIDE = 267"
definition RETROK_KP_MULTIPLY :: retro_key where "RETROK_KP_MULTIPLY = 268"
definition RETROK_KP_MINUS :: retro_key where "RETROK_KP_MINUS = 269"
definition RETROK_KP_PLUS :: retro_key where "RETROK_KP_PLUS = 270"
definition RETROK_KP_ENTER :: retro_key where "RETROK_KP_ENTER = 271"
definition RETROK_KP_EQUALS :: retro_key where "RETROK_KP_EQUALS = 272"
definition RETROK_UP :: retro_key where "RETROK_UP = 273"
definition RETROK_DOWN :: retro_key where "RETROK_DOWN = 274"
definition RETROK_RIGHT :: retro_key where "RETROK_RIGHT = 275"
definition RETROK_LEFT :: retro_key where "RETROK_LEFT = 276"
definition RETROK_INSERT :: retro_key where "RETROK_INSERT = 277"
definition RETROK_HOME :: retro_key where "RETROK_HOME = 278"
definition RETROK_END :: retro_key where "RETROK_END = 279"
definition RETROK_PAGEUP :: retro_key where "RETROK_PAGEUP = 280"
definition RETROK_PAGEDOWN :: retro_key where "RETROK_PAGEDOWN = 281"
definition RETROK_F1 :: retro_key where "RETROK_F1 = 282"
definition RETROK_F2 :: retro_key where "RETROK_F2 = 283"
definition RETROK_F3 :: retro_key where "RETROK_F3 = 284"
definition RETROK_F4 :: retro_key where "RETROK_F4 = 285"
definition RETROK_F5 :: retro_key where "RETROK_F5 = 286"
definition RETROK_F6 :: retro_key where "RETROK_F6 = 287"
definition RETROK_F7 :: retro_key where "RETROK_F7 = 288"
definition RETROK_F8 :: retro_key where "RETROK_F8 = 289"
definition RETROK_F9 :: retro_key where "RETROK_F9 = 290"
definition RETROK_F10 :: retro_key where "RETROK_F10 = 291"
definition RETROK_F11 :: retro_key where "RETROK_F11 = 292"
definition RETROK_F12 :: retro_key where "RETROK_F12 = 293"
definition RETROK_F13 :: retro_key where "RETROK_F13 = 294"
definition RETROK_F14 :: retro_key where "RETROK_F14 = 295"
definition RETROK_F15 :: retro_key where "RETROK_F15 = 296"
definition RETROK_NUMLOCK :: retro_key where "RETROK_NUMLOCK = 300"
definition RETROK_CAPSLOCK :: retro_key where "RETROK_CAPSLOCK = 301"
definition RETROK_SCROLLOCK :: retro_key where "RETROK_SCROLLOCK = 302"
definition RETROK_RSHIFT :: retro_key where "RETROK_RSHIFT = 303"
definition RETROK_LSHIFT :: retro_key where "RETROK_LSHIFT = 304"
definition RETROK_RCTRL :: retro_key where "RETROK_RCTRL = 305"
definition RETROK_LCTRL :: retro_key where "RETROK_LCTRL = 306"
definition RETROK_RALT :: retro_key where "RETROK_RALT = 307"
definition RETROK_LALT :: retro_key where "RETROK_LALT = 308"
definition RETROK_RMETA :: retro_key where "RETROK_RMETA = 309"
definition RETROK_LMETA :: retro_key where "RETROK_LMETA = 310"
definition RETROK_HELP :: retro_key where "RETROK_HELP = 315"
definition RETROK_PRINT :: retro_key where "RETROK_PRINT = 316"
definition RETROK_MENU :: retro_key where "RETROK_MENU = 319"
definition RETROK_POWER :: retro_key where "RETROK_POWER = 320"
definition RETROK_LAST :: retro_key where "RETROK_LAST = 324"


section \<open>Host services\<close>

text \<open>
  Modelled from the spec: \<open>encoding_crc32\<close> is defined in libretro-common
  (\<open>encodings/crc32.c\<close>), which is not among the sources. The spec calls it a 32-bit
  CRC of the bytes of the string: the CRC-32 of zlib and IEEE 802.3, with the reflected
  polynomial \<open>0xEDB88320\<close>, the register inverted before and after. \<open>crc32_shift\<close>
  is one bit of the division, \<open>crc32_byte\<close> feeds one byte.
\<close>

definition crc32_shift :: "uint32_t \<Rightarrow> uint32_t" where
  "crc32_shift c = (if bit c 0 then drop_bit 1 c XOR 0xEDB88320 else drop_bit 1 c)"

definition crc32_byte :: "uint32_t \<Rightarrow> char \<Rightarrow> uint32_t" where
  "crc32_byte c b =
     crc32_shift (crc32_shift (crc32_shift (crc32_shift
       (crc32_shift (crc32_shift (crc32_shift (crc32_shift (c XOR of_char b))))))))"

definition encoding_crc32 :: "uint32_t \<Rightarrow> string \<Rightarrow> uint32_t" where
  "encoding_crc32 crc buf = foldl crc32_byte (crc XOR 0xffffffff) buf XOR 0xffffffff"

text \<open>
  The services of the frontend that the driver calls and whose code is not among the
  sources are parameters of the model:
  \<^item> \<open>input_keymaps_translate_keysym_to_rk\<close>, from a CRC to a retro key;
  \<^item> the macro \<open>input_conv_analog_id_to_bind_id\<close>: for \<open>idx\<close> and \<open>id\<close>, the values
    of \<open>(id_minus, id_plus)\<close> after it, both 0 before it;
  \<^item> \<open>video_driver_translate_coord_viewport_wrap\<close>: for the mouse position,
    \<open>None\<close> when it returns false, else
    \<open>(res_x, res_y, res_screen_x, res_screen_y)\<close>;
  \<^item> the constant \<open>RARCH_BIND_LIST_END\<close> of \<open>input_defines.h\<close>;
  \<^item> \<open>ARRAY_SIZE(rarch_key_map_rwebinput)\<close>, the length of the frontend's array
    for the key map.
\<close>

record host =
  input_keymaps_translate_keysym_to_rk :: "uint32_t \<Rightarrow> c_unsigned"
  input_conv_analog_id_to_bind_id :: "c_unsigned \<Rightarrow> c_unsigned \<Rightarrow> c_unsigned \<times> c_unsigned"
  video_driver_translate_coord_viewport_wrap ::
    "c_int \<Rightarrow> c_int \<Rightarrow> (int16_t \<times> int16_t \<times> int16_t \<times> int16_t) option"
  RARCH_BIND_LIST_END :: c_unsigned
  rarch_key_map_rwebinput_size :: nat

section \<open>Event callbacks\<close>

text \<open>
  \<open>rwebinput_mouse_cb\<close> without \<open>WEB_SCALING\<close>. \<open>1 << button\<close> is computed in
  \<open>int\<close> and cut to \<open>uint8_t\<close>. C leaves a shift by 32 or more undefined; the
  shift instruction of wasm32 takes the count modulo 32, and so does the model. The
  callback returns \<open>EM_FALSE\<close> always; the model returns the new driver state.
\<close>

definition rwebinput_mouse_cb ::
  "emscripten_event_type \<Rightarrow> EmscriptenMouseEvent \<Rightarrow> 'd rwebinput_input \<Rightarrow> 'd rwebinput_input"
where
  "rwebinput_mouse_cb event_type mouse_event rwebinput =
     (let mask = (ucast (push_bit (unat (button mouse_event) mod 32) (1 :: c_int)) :: uint8_t);
          m = mouse rwebinput;
          m1 = m\<lparr>mouse_x := targetX mouse_event,
                 mouse_y := targetY mouse_event,
                 pending_delta_x := pending_delta_x m + movementX mouse_event,
                 pending_delta_y := pending_delta_y m + movementY mouse_event\<rparr>;
          m2 = (if event_type = EMSCRIPTEN_EVENT_MOUSEDOWN
                  then m1\<lparr>buttons := buttons m1 OR mask\<rparr>
                else if event_type = EMSCRIPTEN_EVENT_MOUSEUP
                  then m1\<lparr>buttons := buttons m1 AND NOT mask\<rparr>
                else m1)
      in rwebinput\<lparr>mouse := m2\<rparr>)"

text \<open>\<open>rwebinput_wheel_cb\<close> without \<open>WEB_SCALING\<close>.\<close>

definition rwebinput_wheel_cb ::
  "emscripten_event_type \<Rightarrow> ('d::plus) EmscriptenWheelEvent \<Rightarrow> 'd rwebinput_input
   \<Rightarrow> 'd rwebinput_input"
where
  "rwebinput_wheel_cb event_type wheel_event rwebinput =
     (let m = mouse rwebinput
      in rwebinput\<lparr>mouse := m\<lparr>
           pending_scroll_x := pending_scroll_x m + deltaX wheel_event,
           pending_scroll_y := pending_scroll_y m + deltaY wheel_event\<rparr>\<rparr>)"

text \<open>
  \<open>rwebinput_touch_cb\<close>. The first loop keeps the last touch point that is flagged
  changed; \<open>None\<close> is \<open>touch_changed = false\<close>.
\<close>

definition changed_touch :: "EmscriptenTouchEvent \<Rightarrow> EmscriptenTouchPoint option" where
  "changed_touch touch_event =
     foldl (\<lambda>found p. if isChanged p then Some p else found) None (touches touch_event)"

text \<open>A touchstart of another finger than \<open>last_touchdown_id\<close> starts a tap sequence.\<close>

definition touch_tap_start ::
  "emscripten_event_type \<Rightarrow> EmscriptenTouchPoint \<Rightarrow> rwebinput_touch \<Rightarrow> rwebinput_touch"
where
  "touch_tap_start event_type ct th =
     (if event_type = EMSCRIPTEN_EVENT_TOUCHSTART \<and> last_touchdown_id th \<noteq> touch_identifier ct
      then th\<lparr>clicked_yet := False,
              last_touchdown_id := touch_identifier ct,
              last_touchdown_location := canvasX ct + canvasY ct\<rparr>
      else th)"

text \<open>A touchstart while \<open>clicked_yet\<close> presses the left button: \<open>buttons |= 1 << 0\<close>.\<close>

definition touch_press ::
  "emscripten_event_type \<Rightarrow> rwebinput_touch \<Rightarrow> 'd rwebinput_mouse_state
   \<Rightarrow> 'd rwebinput_mouse_state"
where
  "touch_press event_type th m =
     (if event_type = EMSCRIPTEN_EVENT_TOUCHSTART \<and> clicked_yet th
      then m\<lparr>buttons := buttons m OR 1\<rparr> else m)"

text \<open>
  A touchmove of the finger of the tap sequence: \<open>u\<close> is a \<open>long\<close>, and
  \<open>((u<0)?-u:u) > 25\<close> compares signed values.
\<close>

definition touch_tap_move ::
  "emscripten_event_type \<Rightarrow> EmscriptenTouchPoint \<Rightarrow> rwebinput_touch \<Rightarrow> rwebinput_touch"
where
  "touch_tap_move event_type ct th =
     (if event_type = EMSCRIPTEN_EVENT_TOUCHMOVE \<and> last_touchdown_id th = touch_identifier ct
      then (let u = last_touchdown_location th - (canvasX ct + canvasY ct)
            in if 25 <s (if u <s 0 then - u else u)
               then th\<lparr>last_touchdown_id := - 1\<rparr> else th)
      else th)"

text \<open>The branch of touchend and touchcancel.\<close>

definition touch_release ::
  "EmscriptenTouchPoint \<Rightarrow> 'd rwebinput_input \<Rightarrow> 'd rwebinput_input"
where
  "touch_release ct rwebinput =
     (let th = touch rwebinput;
          th1 = (if touch_identifier ct = touch_id th then th\<lparr>down := False\<rparr> else th)
      in if last_touchdown_id th1 = touch_identifier ct \<and> \<not> clicked_yet th1
         then rwebinput\<lparr>touch := th1\<lparr>clicked_yet := True\<rparr>\<rparr>
         else if clicked_yet th1
         then rwebinput\<lparr>touch := th1\<lparr>clicked_yet := False, last_touchdown_id := - 1\<rparr>,
                        mouse := (mouse rwebinput)\<lparr>buttons := buttons (mouse rwebinput) AND NOT 1\<rparr>\<rparr>
         else rwebinput\<lparr>touch := th1\<rparr>)"

text \<open>The tracked finger is put down.\<close>

definition touch_track_start :: "EmscriptenTouchPoint \<Rightarrow> rwebinput_touch \<Rightarrow> rwebinput_touch" where
  "touch_track_start ct th =
     th\<lparr>down := True,
        touch_id := touch_identifier ct,
        last_canvasX := canvasX ct,
        last_canvasY := canvasY ct\<rparr>"

text \<open>The tracked finger moves (without \<open>WEB_SCALING\<close>).\<close>

definition touch_track_move ::
  "EmscriptenTouchPoint \<Rightarrow> 'd rwebinput_input \<Rightarrow> 'd rwebinput_input"
where
  "touch_track_move ct rwebinput =
     (let th = touch rwebinput;
          m = mouse rwebinput;
          diffX = canvasX ct - last_canvasX th;
          diffY = canvasY ct - last_canvasY th
      in rwebinput\<lparr>
           touch := th\<lparr>last_canvasX := canvasX ct, last_canvasY := canvasY ct\<rparr>,
           mouse := m\<lparr>mouse_x := canvasX ct,
                       mouse_y := canvasY ct,
                       pending_delta_x := pending_delta_x m + diffX,
                       pending_delta_y := pending_delta_y m + diffY\<rparr>\<rparr>)"

text \<open>The callback returns \<open>EM_TRUE\<close> on every path; the model returns the new state.\<close>

definition rwebinput_touch_cb ::
  "emscripten_event_type \<Rightarrow> EmscriptenTouchEvent \<Rightarrow> 'd rwebinput_input \<Rightarrow> 'd rwebinput_input"
where
  "rwebinput_touch_cb event_type touch_event rwebinput =
     (case changed_touch touch_event of
        None \<Rightarrow> rwebinput
      | Some ct \<Rightarrow>
          (let th1 = touch_tap_start event_type ct (touch rwebinput);
               m1 = touch_press event_type th1 (mouse rwebinput);
               th2 = touch_tap_move event_type ct th1;
               r2 = rwebinput\<lparr>touch := th2, mouse := m1\<rparr>
           in if event_type = EMSCRIPTEN_EVENT_TOUCHCANCEL \<or> event_type = EMSCRIPTEN_EVENT_TOUCHEND
              then touch_release ct r2
              else if down th2 \<and> touch_identifier ct \<noteq> touch_id th2
              then r2
              else if event_type = EMSCRIPTEN_EVENT_TOUCHSTART
              then r2\<lparr>touch := touch_track_start ct th2\<rparr>
              else if event_type = EMSCRIPTEN_EVENT_TOUCHMOVE
              then touch_track_move ct r2
              else r2))"

section \<open>Initial state and poll\<close>

text \<open>
  The block that \<open>calloc(1, sizeof(*rwebinput))\<close> returns in \<open>rwebinput_input_init\<close>:
  every field is zero, the queue has no array, and \<open>keys\<close> has \<open>RETROK_LAST\<close>
  entries.
\<close>

definition calloc_rwebinput_input :: "('d::zero) rwebinput_input" where
  "calloc_rwebinput_input =
     \<lparr>touch = \<lparr>touch_id = 0, last_canvasX = 0, last_canvasY = 0, down = False,
                last_touchdown_id = 0, last_touchdown_location = 0, clicked_yet = False\<rparr>,
      mouse = \<lparr>pending_scroll_x = 0, pending_scroll_y = 0, scroll_x = 0, scroll_y = 0,
                mouse_x = 0, mouse_y = 0, pending_delta_x = 0, pending_delta_y = 0,
                delta_x = 0, delta_y = 0, buttons = 0\<rparr>,
      keyboard = \<lparr>events = [], count = 0, max_size = 0\<rparr>,
      keys = replicate (unat RETROK_LAST) False\<rparr>"

text \<open>\<open>strnlen\<close>: the number of bytes before the first NUL among the first \<open>n\<close>.\<close>

definition strnlen :: "string \<Rightarrow> nat \<Rightarrow> nat" where
  "strnlen str n = length (takeWhile (\<lambda>c. c \<noteq> CHR 0x00) (take n str))"

text \<open>
  \<open>rwebinput_process_keyboard_events\<close>. \<open>sizeof(key_event->code)\<close> is the length
  of the buffer. The guard keeps the index inside \<open>keys\<close>.
\<close>

definition rwebinput_process_keyboard_events ::
  "host \<Rightarrow> 'd rwebinput_input \<Rightarrow> rwebinput_keyboard_event \<Rightarrow> 'd rwebinput_input"
where
  "rwebinput_process_keyboard_events h rwebinput ev =
     (let key_event = event ev;
          keydown = (type ev = EMSCRIPTEN_EVENT_KEYDOWN);
          keycode = encoding_crc32 0
            (take (strnlen (code key_event) (length (code key_event))) (code key_event));
          translated_keycode = input_keymaps_translate_keysym_to_rk h keycode
      in if translated_keycode < RETROK_LAST \<and> translated_keycode \<noteq> RETROK_UNKNOWN
         then rwebinput\<lparr>keys := (keys rwebinput)[unat translated_keycode := keydown]\<rparr>
         else rwebinput)"

text \<open>The \<open>for\<close> loop of \<open>rwebinput_input_poll\<close> over the queued records.\<close>

fun poll_keyboard_events ::
  "host \<Rightarrow> 'd rwebinput_input \<Rightarrow> rwebinput_keyboard_event list \<Rightarrow> 'd rwebinput_input"
where
  "poll_keyboard_events h rwebinput [] = rwebinput"
| "poll_keyboard_events h rwebinput (ev # evs) =
     poll_keyboard_events h (rwebinput_process_keyboard_events h rwebinput ev) evs"

text \<open>
  \<open>rwebinput_input_poll\<close>. The loop reads \<open>events[0]\<close> to \<open>events[count - 1]\<close>.
\<close>

definition rwebinput_input_poll :: "host \<Rightarrow> ('d::zero) rwebinput_input \<Rightarrow> 'd rwebinput_input" where
  "rwebinput_input_poll h rwebinput =
     (let r1 = poll_keyboard_events h rwebinput
                 (take (count (keyboard rwebinput)) (events (keyboard rwebinput)));
          r2 = r1\<lparr>keyboard := (keyboard r1)\<lparr>count := 0\<rparr>\<rparr>;
          m = mouse r2;
          m1 = m\<lparr>delta_x := pending_delta_x m, delta_y := pending_delta_y m\<rparr>;
          m2 = m1\<lparr>pending_delta_x := 0, pending_delta_y := 0\<rparr>;
          m3 = m2\<lparr>scroll_x := pending_scroll_x m2, scroll_y := pending_scroll_y m2\<rparr>;
          m4 = m3\<lparr>pending_scroll_x := 0, pending_scroll_y := 0\<rparr>
      in r2\<lparr>mouse := m4\<rparr>)"

section \<open>State queries\<close>

text \<open>
  \<open>rwebinput_mouse_state\<close>. \<open>(int16_t)\<close> cuts an \<open>int\<close> to its low 16 bits;
  \<open>!!(buttons & (1 << n))\<close> is 1 when bit \<open>n\<close> is set.
\<close>

definition rwebinput_mouse_state ::
  "('d::{zero,ord}) rwebinput_mouse_state \<Rightarrow> c_unsigned \<Rightarrow> bool \<Rightarrow> int16_t"
where
  "rwebinput_mouse_state m ident screen =
     (if ident = RETRO_DEVICE_ID_MOUSE_X then ucast (if screen then mouse_x m else delta_x m)
      else if ident = RETRO_DEVICE_ID_MOUSE_Y then ucast (if screen then mouse_y m else delta_y m)
      else if ident = RETRO_DEVICE_ID_MOUSE_LEFT
        then of_bool (buttons m AND push_bit RWEBINPUT_MOUSE_BTNL 1 \<noteq> 0)
      else if ident = RETRO_DEVICE_ID_MOUSE_RIGHT
        then of_bool (buttons m AND push_bit RWEBINPUT_MOUSE_BTNR 1 \<noteq> 0)
      else if ident = RETRO_DEVICE_ID_MOUSE_MIDDLE
        then of_bool (buttons m AND push_bit RWEBINPUT_MOUSE_BTNM 1 \<noteq> 0)
      else if ident = RETRO_DEVICE_ID_MOUSE_BUTTON_4
        then of_bool (buttons m AND push_bit RWEBINPUT_MOUSE_BTN4 1 \<noteq> 0)
      else if ident = RETRO_DEVICE_ID_MOUSE_BUTTON_5
        then of_bool (buttons m AND push_bit RWEBINPUT_MOUSE_BTN5 1 \<noteq> 0)
      else if ident = RETRO_DEVICE_ID_MOUSE_WHEELUP then of_bool (scroll_y m < 0)
      else if ident = RETRO_DEVICE_ID_MOUSE_WHEELDOWN then of_bool (0 < scroll_y m)
      else if ident = RETRO_DEVICE_ID_MOUSE_HORIZ_WHEELUP then of_bool (scroll_x m < 0)
      else if ident = RETRO_DEVICE_ID_MOUSE_HORIZ_WHEELDOWN then of_bool (0 < scroll_x m)
      else 0)"

text \<open>
  The loop of the \<open>RETRO_DEVICE_ID_JOYPAD_MASK\<close> query: \<open>ret |= (1 << i)\<close> widens
  the \<open>int16_t\<close> to \<open>int\<close>, sets the bit and cuts the result to 16 bits again.
\<close>

definition joypad_mask_step ::
  "rwebinput_code_to_key list \<Rightarrow> c_unsigned \<Rightarrow> int16_t \<Rightarrow> nat \<Rightarrow> int16_t"
where
  "joypad_mask_step tbl port ret i =
     (if is_pressed_hehe tbl port (of_nat i) \<noteq> 0
      then ucast ((scast ret :: c_int) OR push_bit i 1) else ret)"

definition joypad_mask :: "rwebinput_code_to_key list \<Rightarrow> c_unsigned \<Rightarrow> int16_t" where
  "joypad_mask tbl port =
     foldl (joypad_mask_step tbl port) 0 [0 ..< unat RARCH_FIRST_CUSTOM_BIND]"

text \<open>
  The \<open>RETRO_DEVICE_ANALOG\<close> query: \<open>ret = rv\<close> cuts the \<open>int\<close> to 16 bits, and
  \<open>ret -= rv\<close> subtracts in \<open>int\<close> and cuts again.
\<close>

definition analog_state ::
  "host \<Rightarrow> rwebinput_code_to_key list \<Rightarrow> c_unsigned \<Rightarrow> c_unsigned \<Rightarrow> c_unsigned \<Rightarrow> int16_t"
where
  "analog_state h tbl port idx ident =
     (let (id_minus, id_plus) = input_conv_analog_id_to_bind_id h idx ident;
          rv = is_pressed_hehe tbl port id_plus;
          ret = (if rv \<noteq> 0 then ucast rv else 0 :: int16_t);
          rv' = is_pressed_hehe tbl port id_minus
      in if rv' \<noteq> 0 then ucast ((scast ret :: c_int) - rv') else ret)"

text \<open>
  The pointer query for \<open>idx = 0\<close>; the comparisons with \<open>edge_detect = 32700\<close> are
  made in \<open>int\<close>.
\<close>

definition pointer_state ::
  "host \<Rightarrow> 'd rwebinput_mouse_state \<Rightarrow> bool \<Rightarrow> c_unsigned \<Rightarrow> int16_t"
where
  "pointer_state h m screen ident =
     (case video_driver_translate_coord_viewport_wrap h (mouse_x m) (mouse_y m) of
        None \<Rightarrow> 0
      | Some (vx, vy, res_screen_x, res_screen_y) \<Rightarrow>
          (let res_x = (if screen then res_screen_x else vx);
               res_y = (if screen then res_screen_y else vy);
               inside = (- 32700 \<le> sint res_x \<and> - 32700 \<le> sint res_y \<and>
                         sint res_x \<le> 32700 \<and> sint res_y \<le> 32700)
           in if ident = RETRO_DEVICE_ID_POINTER_X then (if inside then res_x else 0)
              else if ident = RETRO_DEVICE_ID_POINTER_Y then (if inside then res_y else 0)
              else if ident = RETRO_DEVICE_ID_POINTER_PRESSED
                then of_bool (buttons m AND push_bit RWEBINPUT_MOUSE_BTNL 1 \<noteq> 0)
              else if ident = RETRO_DEVICE_ID_LIGHTGUN_IS_OFFSCREEN then of_bool (\<not> inside)
              else 0))"

text \<open>
  \<open>rwebinput_input_state\<close>. The arguments the function does not read are left out;
  the gamepad table is the global \<open>stuff\<close> at the time of the call.
\<close>

definition rwebinput_input_state ::
  "host \<Rightarrow> rwebinput_code_to_key list \<Rightarrow> ('d::{zero,ord}) rwebinput_input
   \<Rightarrow> c_unsigned \<Rightarrow> c_unsigned \<Rightarrow> c_unsigned \<Rightarrow> c_unsigned \<Rightarrow> int16_t"
where
  "rwebinput_input_state h tbl rwebinput port device idx ident =
     (if device = RETRO_DEVICE_JOYPAD then
        (if ident = RETRO_DEVICE_ID_JOYPAD_MASK then joypad_mask tbl port
         else if ident < RARCH_BIND_LIST_END h \<and> is_pressed_hehe tbl port ident \<noteq> 0 then 1
         else 0)
      else if device = RETRO_DEVICE_ANALOG then analog_state h tbl port idx ident
      else if device = RETRO_DEVICE_KEYBOARD then
        of_bool (ident < RETROK_LAST \<and> keys rwebinput ! unat ident)
      else if device = RETRO_DEVICE_MOUSE \<or> device = RARCH_DEVICE_MOUSE_SCREEN then
        rwebinput_mouse_state (mouse rwebinput) ident (device = RARCH_DEVICE_MOUSE_SCREEN)
      else if device = RETRO_DEVICE_POINTER \<or> device = RARCH_DEVICE_POINTER_SCREEN then
        (if idx = 0
         then pointer_state h (mouse rwebinput) (device = RARCH_DEVICE_POINTER_SCREEN) ident
         else 0)
      else 0)"

section \<open>The key-code table and its look-up table\<close>

record rwebinput_key_to_code_map_entry =
  key :: string
  rk :: retro_key

definition key_entry :: "string \<Rightarrow> retro_key \<Rightarrow> rwebinput_key_to_code_map_entry" where
  "key_entry k r = \<lparr>key = k, rk = r\<rparr>"

definition rwebinput_key_to_code_map :: "rwebinput_key_to_code_map_entry list" where
  "rwebinput_key_to_code_map =
    [key_entry ''KeyA'' RETROK_a,
     key_entry ''KeyB'' RETROK_b,
     key_entry ''KeyC'' RETROK_c,
     key_entry ''KeyD'' RETROK_d,
     key_entry ''KeyE'' RETROK_e,
     key_entry ''KeyF'' RETROK_f,
     key_entry ''KeyG'' RETROK_g,
     key_entry ''KeyH'' RETROK_h,
     key_entry ''KeyI'' RETROK_i,
     key_entry ''KeyJ'' RETROK_j,
     key_entry ''KeyK'' RETROK_k,
     key_entry ''KeyL'' RETROK_l,
     key_entry ''KeyM'' RETROK_m,
     key_entry ''KeyN'' RETROK_n,
     key_entry ''KeyO'' RETROK_o,
     key_entry ''KeyP'' RETROK_p,
     key_entry ''KeyQ'' RETROK_q,
     key_entry ''KeyR'' RETROK_r,
     key_entry ''KeyS'' RETROK_s,
     key_entry ''KeyT'' RETROK_t,
     key_entry ''KeyU'' RETROK_u,
     key_entry ''KeyV'' RETROK_v,
     key_entry ''KeyW'' RETROK_w,
     key_entry ''KeyX'' RETROK_x,
     key_entry ''KeyY'' RETROK_y,
     key_entry ''KeyZ'' RETROK_z,
     key_entry ''ArrowLeft'' RETROK_LEFT,
     key_entry ''ArrowRight'' RETROK_RIGHT,
     key_entry ''ArrowUp'' RETROK_UP,
     key_entry ''ArrowDown'' RETROK_DOWN,
     key_entry ''Enter'' RETROK_RETURN,
     key_entry ''NumpadEnter'' RETROK_KP_ENTER,
     key_entry ''Tab'' RETROK_TAB,
     key_entry ''Insert'' RETROK_INSERT,
     key_entry ''Delete'' RETROK_DELETE,
     key_entry ''End'' RETROK_END,
     key_entry ''Home'' RETROK_HOME,
     key_entry ''ShiftRight'' RETROK_RSHIFT,
     key_entry ''ShiftLeft'' RETROK_LSHIFT,
     key_entry ''ControlLeft'' RETROK_LCTRL,
     key_entry ''AltLeft'' RETROK_LALT,
     key_entry ''Space'' RETROK_SPACE,
     key_entry ''Escape'' RETROK_ESCAPE,
     key_entry ''NumpadAdd'' RETROK_KP_PLUS,
     key_entry ''NumpadSubtract'' RETROK_KP_MINUS,
     key_entry ''F1'' RETROK_F1,
     key_entry ''F2'' RETROK_F2,
     key_entry ''F3'' RETROK_F3,
     key_entry ''F4'' RETROK_F4,
     key_entry ''F5'' RETROK_F5,
     key_entry ''F6'' RETROK_F6,
     key_entry ''F7'' RETROK_F7,
     key_entry ''F8'' RETROK_F8,
     key_entry ''F9'' RETROK_F9,
     key_entry ''F10'' RETROK_F10,
     key_entry ''F11'' RETROK_F11,
     key_entry ''F12'' RETROK_F12,
     key_entry ''Digit0'' RETROK_0,
     key_entry ''Digit1'' RETROK_1,
     key_entry ''Digit2'' RETROK_2,
     key_entry ''Digit3'' RETROK_3,
     key_entry ''Digit4'' RETROK_4,
     key_entry ''Digit5'' RETROK_5,
     key_entry ''Digit6'' RETROK_6,
     key_entry ''Digit7'' RETROK_7,
     key_entry ''Digit8'' RETROK_8,
     key_entry ''Digit9'' RETROK_9,
     key_entry ''PageUp'' RETROK_PAGEUP,
     key_entry ''PageDown'' RETROK_PAGEDOWN,
     key_entry ''Numpad0'' RETROK_KP0,
     key_entry ''Numpad1'' RETROK_KP1,
     key_entry ''Numpad2'' RETROK_KP2,
     key_entry ''Numpad3'' RETROK_KP3,
     key_entry ''Numpad4'' RETROK_KP4,
     key_entry ''Numpad5'' RETROK_KP5,
     key_entry ''Numpad6'' RETROK_KP6,
     key_entry ''Numpad7'' RETROK_KP7,
     key_entry ''Numpad8'' RETROK_KP8,
     key_entry ''Numpad9'' RETROK_KP9,
     key_entry ''Period'' RETROK_PERIOD,
     key_entry ''CapsLock'' RETROK_CAPSLOCK,
     key_entry ''NumLock'' RETROK_NUMLOCK,
     key_entry ''Backspace'' RETROK_BACKSPACE,
     key_entry ''NumpadMultiply'' RETROK_KP_MULTIPLY,
     key_entry ''NumpadDivide'' RETROK_KP_DIVIDE,
     key_entry ''PrintScreen'' RETROK_PRINT,
     key_entry ''ScrollLock'' RETROK_SCROLLOCK,
     key_entry ''Backquote'' RETROK_BACKQUOTE,
     key_entry ''Pause'' RETROK_PAUSE,
     key_entry ''Quote'' RETROK_QUOTE,
     key_entry ''Comma'' RETROK_COMMA,
     key_entry ''Minus'' RETROK_MINUS,
     key_entry ''Slash'' RETROK_SLASH,
     key_entry ''Semicolon'' RETROK_SEMICOLON,
     key_entry ''Equal'' RETROK_EQUALS,
     key_entry ''BracketLeft'' RETROK_LEFTBRACKET,
     key_entry ''Backslash'' RETROK_BACKSLASH,
     key_entry ''BracketRight'' RETROK_RIGHTBRACKET,
     key_entry ''NumpadDecimal'' RETROK_KP_PERIOD,
     key_entry ''NumpadEqual'' RETROK_KP_EQUALS,
     key_entry ''ControlRight'' RETROK_RCTRL,
     key_entry ''AltRight'' RETROK_RALT,
     key_entry ''F13'' RETROK_F13,
     key_entry ''F14'' RETROK_F14,
     key_entry ''F15'' RETROK_F15,
     key_entry ''MetaRight'' RETROK_RMETA,
     key_entry ''MetaLeft'' RETROK_LMETA,
     key_entry ''Help'' RETROK_HELP,
     key_entry ''ContextMenu'' RETROK_MENU,
     key_entry ''Power'' RETROK_POWER]"

text \<open>
  \<open>struct rarch_key_map\<close> of \<open>input_keymaps.h\<close>, with its fields \<open>sym\<close> and
  \<open>rk\<close> called \<open>km_sym\<close> and \<open>km_rk\<close>.
\<close>

record rarch_key_map =
  km_sym :: uint32_t
  km_rk :: retro_key

text \<open>\<open>retro_assert\<close> prints a message and aborts the program.\<close>

datatype failure = Assertion_failed

text \<open>
  The loop of \<open>rwebinput_generate_lut\<close>: \<open>built\<close> holds the slots written so far,
  \<open>rarch_key_map_rwebinput[0]\<close> to \<open>rarch_key_map_rwebinput[i - 1]\<close>. The inner loop
  asserts that none of them has the CRC of entry \<open>i\<close>; \<open>strlen\<close> of a string literal
  is its length.
\<close>

fun generate_lut_loop ::
  "rwebinput_key_to_code_map_entry list \<Rightarrow> rarch_key_map list \<Rightarrow> failure + rarch_key_map list"
where
  "generate_lut_loop [] built = Inr built"
| "generate_lut_loop (key_to_code # rest) built =
     (let crc = encoding_crc32 0 (key key_to_code)
      in if list_ex (\<lambda>slot. km_sym slot = crc) built then Inl Assertion_failed
         else generate_lut_loop rest (built @ [\<lparr>km_sym = crc, km_rk = rk key_to_code\<rparr>]))"

text \<open>
  \<open>rwebinput_generate_lut\<close>: the first assertion compares the sizes of the two
  arrays; after the loop the terminating entry is written. The result is the content
  of \<open>rarch_key_map_rwebinput\<close>.
\<close>

definition rwebinput_generate_lut :: "host \<Rightarrow> failure + rarch_key_map list" where
  "rwebinput_generate_lut h =
     (if rarch_key_map_rwebinput_size h \<noteq> length rwebinput_key_to_code_map + 1
      then Inl Assertion_failed
      else (case generate_lut_loop rwebinput_key_to_code_map [] of
              Inl f \<Rightarrow> Inl f
            | Inr built \<Rightarrow> Inr (built @ [\<lparr>km_sym = 0, km_rk = RETROK_UNKNOWN\<rparr>])))"

section \<open>The specification's reading of the keyboard drain\<close>

text \<open>
  The retro key a queued record resolves to, in the words of the specification: hash
  the code string, translate the hash with the key-map service of the host, and keep
  the id if it is in range and not UNKNOWN.
\<close>

definition resolve_key :: "host \<Rightarrow> rwebinput_keyboard_event \<Rightarrow> nat option" where
  "resolve_key h ev =
     (let k = input_keymaps_translate_keysym_to_rk h
                (encoding_crc32 0 (takeWhile (\<lambda>c. c \<noteq> CHR 0x00) (code (event ev))))
      in if unat k < unat RETROK_LAST \<and> k \<noteq> RETROK_UNKNOWN then Some (unat k) else None)"

text \<open>One record applied to a key-down table, and a queue applied first to last.\<close>

definition apply_record :: "host \<Rightarrow> bool list \<Rightarrow> rwebinput_keyboard_event \<Rightarrow> bool list" where
  "apply_record h tab ev =
     (case resolve_key h ev of
        None \<Rightarrow> tab
      | Some k \<Rightarrow> tab[k := (type ev = EMSCRIPTEN_EVENT_KEYDOWN)])"

definition net_effect :: "host \<Rightarrow> bool list \<Rightarrow> rwebinput_keyboard_event list \<Rightarrow> bool list" where
  "net_effect h tab evs = foldl (apply_record h) tab evs"

text \<open>The last record of a queue that resolves to key \<open>k\<close>, if there is one.\<close>

definition last_record_for ::
  "host \<Rightarrow> nat \<Rightarrow> rwebinput_keyboard_event list \<Rightarrow> rwebinput_keyboard_event option"
where
  "last_record_for h k evs = find (\<lambda>ev. resolve_key h ev = Some k) (rev evs)"

section \<open>A small host for worked examples\<close>

text \<open>
  A host whose key map knows one key: the CRC of \<open>ArrowLeft\<close> translates to
  \<open>RETROK_LEFT\<close>, every other CRC to \<open>RETROK_UNKNOWN\<close>. Its analog macro maps
  every query to the pair \<open>(id_minus, id_plus) = (17, 16)\<close>, its viewport service
  fails, its bind list ends at 100 and its array for the key map has 111 slots.
\<close>

definition example_host :: host where
  "example_host =
     \<lparr>input_keymaps_translate_keysym_to_rk =
        (\<lambda>crc. if crc = encoding_crc32 0 ''ArrowLeft'' then RETROK_LEFT else RETROK_UNKNOWN),
      input_conv_analog_id_to_bind_id = (\<lambda>idx ident. (17, 16)),
      video_driver_translate_coord_viewport_wrap = (\<lambda>px py. None),
      RARCH_BIND_LIST_END = 100,
      rarch_key_map_rwebinput_size = 111\<rparr>"

text \<open>A keyboard record of the given type whose code buffer holds \<open>ArrowLeft\<close>.\<close>

definition arrow_left_record :: "emscripten_event_type \<Rightarrow> rwebinput_keyboard_event" where
  "arrow_left_record ty =
     \<lparr>type = ty,
      event = \<lparr>code = ''ArrowLeft'' @ replicate 23 (CHR 0x00)\<rparr>\<rparr>"

text \<open>A touch event with one touch point, which is flagged changed.\<close>

definition one_finger_event :: "c_long \<Rightarrow> c_long \<Rightarrow> c_long \<Rightarrow> EmscriptenTouchEvent" where
  "one_finger_event fid px py =
     \<lparr>touches = [\<lparr>touch_identifier = fid, isChanged = True, canvasX = px, canvasY = py\<rparr>]\<rparr>"

section \<open>The virtual gamepad table: proofs\<close>

lemma word_of_sint_value:
  fixes w :: "32 word"
  assumes "sint w = k"
  shows "w = word_of_int k"
proof -
  have "w = word_of_int (sint w)" by simp
  then show ?thesis using assms by simp
qed

lemma small_int_cases:
  fixes w :: "32 word"
  assumes "0 \<le> sint w" "sint w \<le> 3"
  shows "w = 0 \<or> w = 1 \<or> w = 2 \<or> w = 3"
proof -
  have "sint w = 0 \<or> sint w = 1 \<or> sint w = 2 \<or> sint w = 3" using assms by arith
  then show ?thesis
    by (auto dest: word_of_sint_value)
qed

lemma uint_of_small_sint:
  fixes w :: "32 word"
  assumes "0 \<le> sint w" "sint w \<le> 28"
  shows "uint w = sint w"
proof -
  have "sint w < 2 ^ 32" using assms by simp
  then have "take_bit 32 (sint w) = sint w"
    using assms(1) by (simp add: take_bit_int_eq_self)
  then show ?thesis by (simp add: uint_sint)
qed

lemma unat_of_small_sint:
  fixes w :: "32 word"
  assumes "0 \<le> sint w" "sint w \<le> 28"
  shows "unat w \<le> 28"
proof -
  have "uint w \<le> 28" using uint_of_small_sint [OF assms] assms(2) by linarith
  moreover have "unat w = nat (uint w)" by (rule unat_eq_nat_uint)
  ultimately show ?thesis by linarith
qed

lemma stuff_ids: "map id_field stuff = map of_nat [0 ..< 29]"
  by (simp add: stuff_def stuff_row_def upt_rec)

lemma ids_length:
  assumes "table_ids_ok tbl"
  shows "length tbl = 29"
proof -
  have "map id_field tbl = map of_nat [0 ..< 29]"
    using assms by (simp add: table_ids_ok_def stuff_ids)
  from arg_cong [OF this, of length] show ?thesis by simp
qed

lemma ids_nth:
  assumes "table_ids_ok tbl" "i < length tbl"
  shows "id_field (tbl ! i) = of_nat i"
proof -
  have m: "map id_field tbl = map of_nat [0 ..< 29]"
    using assms(1) by (simp add: table_ids_ok_def stuff_ids)
  have l: "length tbl = 29" by (rule ids_length [OF assms(1)])
  have "id_field (tbl ! i) = map id_field tbl ! i" using assms(2) by simp
  also have "\<dots> = of_nat i" using assms(2) l unfolding m by simp
  finally show "id_field (tbl ! i) = of_nat i" .
qed

lemma simulate_input_ids: "map id_field (simulate_input user key_v down_v tbl) = map id_field tbl"
  by (induction tbl) (simp_all add: set_down_def)

lemma simulate_input_length: "length (simulate_input user key_v down_v tbl) = length tbl"
  using arg_cong [OF simulate_input_ids, of length] by simp

lemma simulate_input_read:
  assumes "key_v \<in> id_field ` set tbl" "user = 0 \<or> user = 1 \<or> user = 2 \<or> user = 3"
  shows "is_pressed_loop (simulate_input user key_v down_v tbl) user key_v = down_v"
  using assms by (induction tbl) (auto simp: set_down_def)

lemma simulate_input_frame:
  assumes "i < length tbl" "u < 4" "user = 0 \<or> user = 1 \<or> user = 2 \<or> user = 3"
    "u \<noteq> unat user \<or> id_field (tbl ! i) \<noteq> key_v"
  shows "down_of u (simulate_input user key_v down_v tbl ! i) = down_of u (tbl ! i)"
  using assms
proof (induction tbl arbitrary: i)
  case Nil
  then show ?case by simp
next
  case (Cons r rs)
  show ?case
  proof (cases i)
    case 0
    with Cons.prems show ?thesis by (auto simp: set_down_def down_of_def)
  next
    case (Suc j)
    with Cons show ?thesis by simp
  qed
qed

lemma user_out_of_range_read:
  assumes "user \<noteq> 0" "user \<noteq> 1" "user \<noteq> 2" "user \<noteq> 3"
  shows "is_pressed_loop tbl user ident = 0"
  using assms by (induction tbl) simp_all

lemma user_out_of_range_write:
  assumes "user \<noteq> 0" "user \<noteq> 1" "user \<noteq> 2" "user \<noteq> 3"
  shows "simulate_input user key_v down_v tbl = tbl"
  using assms by (induction tbl) (simp_all add: set_down_def)


lemma key_in_table:
  fixes key_v :: "32 word"
  assumes "table_ids_ok tbl" "0 \<le> sint key_v" "sint key_v \<le> 28"
  shows "key_v \<in> id_field ` set tbl"
proof -
  have u: "unat key_v \<le> 28" using unat_of_small_sint assms(2,3) by blast
  have "length tbl = 29" by (rule ids_length [OF assms(1)])
  with u have l: "unat key_v < length tbl" by simp
  then have "id_field (tbl ! unat key_v) = of_nat (unat key_v)"
    using ids_nth [OF assms(1)] by blast
  then have "id_field (tbl ! unat key_v) = key_v" by simp
  with l show ?thesis by (metis imageI nth_mem)
qed

lemma other_row_id:
  fixes key_v :: "32 word"
  assumes "i < 29" "i \<noteq> unat key_v"
  shows "(of_nat i :: 32 word) \<noteq> key_v"
proof
  assume "(of_nat i :: 32 word) = key_v"
  then have "unat key_v = unat (of_nat i :: 32 word)" by simp
  also have "\<dots> = i" using assms(1) by (simp add: unat_of_nat)
  finally show False using assms(2) by simp
qed

text \<open>
  The tables the program reaches have the ids of the initialiser: the initial table
  has them, and \<open>simulate_input\<close> keeps the id column.
\<close>

lemma table_ids_ok_stuff: "table_ids_ok stuff"
  by (simp add: table_ids_ok_def)

lemma table_ids_ok_simulate_input:
  assumes "table_ids_ok tbl"
  shows "table_ids_ok (simulate_input user key_v down_v tbl)"
  using assms by (simp add: table_ids_ok_def simulate_input_ids)

text \<open>
  C10. A user outside 0..3: \<open>is_pressed_hehe\<close> returns 0 for every id and every
  table, and \<open>simulate_input\<close> returns the table it was given.
\<close>

theorem user_outside_range_ignored:
  assumes "sint user < 0 \<or> 3 < sint user"
  shows "is_pressed_hehe tbl user ident = 0 \<and> simulate_input user key_v down_v tbl = tbl"
proof -
  have u: "user \<noteq> 0" "user \<noteq> 1" "user \<noteq> 2" "user \<noteq> 3"
    using assms by auto
  show ?thesis
    using user_out_of_range_read [OF u] user_out_of_range_write [OF u]
    by (simp add: is_pressed_hehe_def)
qed

theorem user_outside_range_ignored_witness:
  "3 < sint (4 :: c_int) \<and>
   is_pressed_hehe (simulate_input 0 5 1 stuff) 4 5 = 0 \<and>
   is_pressed_hehe (simulate_input 0 5 1 stuff) 0 5 = 1 \<and>
   simulate_input 4 5 1 (simulate_input 0 5 1 stuff) = simulate_input 0 5 1 stuff"
proof -
  have h: "sint (4 :: c_int) < 0 \<or> 3 < sint (4 :: c_int)" by simp
  have "is_pressed_hehe (simulate_input 0 5 1 stuff) 0 5 = 1"
    by (simp add: is_pressed_hehe_def stuff_def stuff_row_def set_down_def word_sle_eq)
  then show ?thesis
    using user_outside_range_ignored [OF h, of "simulate_input 0 5 1 stuff" 5 5 1] by simp
qed

text \<open>
  C4. For a user in 0..3 and an id in 0..23, on a table with the ids of the
  initialiser: after \<open>simulate_input(user, id, 1)\<close> the read \<open>is_pressed(user, id)\<close>
  returns 1, after a following \<open>simulate_input(user, id, 0)\<close> it returns 0, and each
  of the two writes leaves the flag of every other pair of a user \<open>u\<close> and a row
  \<open>i\<close> (the row of id \<open>i\<close>) as it was.
\<close>

theorem simulate_input_then_is_pressed:
  assumes "table_ids_ok tbl"
      and "0 \<le> sint user" and "sint user \<le> 3"
      and "0 \<le> sint key_v" and "sint key_v \<le> 23"
      and "t1 = simulate_input user key_v 1 tbl"
      and "t0 = simulate_input user key_v 0 t1"
  shows "is_pressed_hehe t1 user key_v = 1 \<and>
         is_pressed_hehe t0 user key_v = 0 \<and>
         (\<forall>u i. u < 4 \<and> i < 29 \<and> (u, i) \<noteq> (unat user, unat key_v) \<longrightarrow>
            down_of u (t1 ! i) = down_of u (tbl ! i) \<and>
            down_of u (t0 ! i) = down_of u (t1 ! i))"
proof -
  have us: "user = 0 \<or> user = 1 \<or> user = 2 \<or> user = 3"
    using small_int_cases assms(2,3) by blast
  have k28: "sint key_v \<le> 28" using assms(5) by simp
  have n24: "\<not> 24 \<le>s key_v" using assms(4,5) by (simp add: word_sle_eq)
  have ok1: "table_ids_ok t1"
    using assms(1) by (simp add: assms(6) table_ids_ok_def simulate_input_ids)
  have len: "length tbl = 29" "length t1 = 29"
    using ids_length [OF assms(1)] ids_length [OF ok1] by simp_all
  have r1: "is_pressed_hehe t1 user key_v = 1"
    using simulate_input_read [OF key_in_table [OF assms(1,4) k28] us] n24
    by (simp add: is_pressed_hehe_def assms(6))
  have r0: "is_pressed_hehe t0 user key_v = 0"
    using simulate_input_read [OF key_in_table [OF ok1 assms(4) k28] us] n24
    by (simp add: is_pressed_hehe_def assms(7))
  have frame: "down_of u (simulate_input user key_v d t ! i) = down_of u (t ! i)"
    if "table_ids_ok t" "u < 4" "i < 29" "(u, i) \<noteq> (unat user, unat key_v)" for t d u i
  proof -
    have l: "i < length t" using ids_length [OF that(1)] that(3) by simp
    have "u \<noteq> unat user \<or> id_field (t ! i) \<noteq> key_v"
      using that(4) other_row_id [OF that(3)] ids_nth [OF that(1) l] by auto
    then show ?thesis using simulate_input_frame [OF l that(2) us] by blast
  qed
  show ?thesis
    using r1 r0 frame [OF assms(1)] frame [OF ok1] by (simp add: assms(6,7))
qed

theorem simulate_input_then_is_pressed_witness:
  "(let tbl = simulate_input 1 4 1 stuff;
        t1 = simulate_input 2 4 1 tbl;
        t0 = simulate_input 2 4 0 t1
    in table_ids_ok tbl \<and> sint (2 :: c_int) \<le> 3 \<and> sint (4 :: c_int) \<le> 23 \<and>
       is_pressed_hehe t1 2 4 = 1 \<and>
       is_pressed_hehe t0 2 4 = 0 \<and>
       down_of 1 (tbl ! 4) = 1 \<and> down_of 1 (t1 ! 4) = 1 \<and> down_of 1 (t0 ! 4) = 1 \<and>
       down_of 2 (t1 ! 5) = 0)"
proof -
  define tbl where "tbl = simulate_input 1 4 1 stuff"
  have h: "table_ids_ok tbl" "0 \<le> sint (2 :: c_int)" "sint (2 :: c_int) \<le> 3"
    "0 \<le> sint (4 :: c_int)" "sint (4 :: c_int) \<le> 23"
    by (simp_all add: tbl_def table_ids_ok_simulate_input table_ids_ok_stuff)
  have u: "unat (2 :: c_int) = 2" "unat (4 :: c_int) = 4" by simp_all
  have old: "down_of 1 (tbl ! 4) = 1" "down_of 2 (tbl ! 5) = 0"
    by (simp_all add: tbl_def stuff_def stuff_row_def set_down_def down_of_def)
  note t = simulate_input_then_is_pressed [OF h refl refl]
  from t have a: "is_pressed_hehe (simulate_input 2 4 1 tbl) 2 4 = 1"
    and b: "is_pressed_hehe (simulate_input 2 4 0 (simulate_input 2 4 1 tbl)) 2 4 = 0"
    and c: "\<forall>u i. u < 4 \<and> i < 29 \<and> (u, i) \<noteq> (unat (2 :: c_int), unat (4 :: c_int)) \<longrightarrow>
            down_of u (simulate_input 2 4 1 tbl ! i) = down_of u (tbl ! i) \<and>
            down_of u (simulate_input 2 4 0 (simulate_input 2 4 1 tbl) ! i)
              = down_of u (simulate_input 2 4 1 tbl ! i)"
    by blast+
  from c [rule_format, of 1 4] c [rule_format, of 2 5] u old
  have "down_of 1 (simulate_input 2 4 1 tbl ! 4) = 1"
    "down_of 1 (simulate_input 2 4 0 (simulate_input 2 4 1 tbl) ! 4) = 1"
    "down_of 2 (simulate_input 2 4 1 tbl ! 5) = 0"
    by simp_all
  with a b h old show ?thesis
    unfolding Let_def tbl_def [symmetric] by simp
qed

section \<open>Mouse deltas and poll: proofs\<close>

lemma process_keyboard_events_frame:
  "mouse (rwebinput_process_keyboard_events h r ev) = mouse r"
  "touch (rwebinput_process_keyboard_events h r ev) = touch r"
  "keyboard (rwebinput_process_keyboard_events h r ev) = keyboard r"
  by (simp_all add: rwebinput_process_keyboard_events_def Let_def)

lemma poll_keyboard_events_frame:
  "mouse (poll_keyboard_events h r evs) = mouse r \<and>
   touch (poll_keyboard_events h r evs) = touch r \<and>
   keyboard (poll_keyboard_events h r evs) = keyboard r"
  by (induction evs arbitrary: r) (simp_all add: process_keyboard_events_frame)

lemma poll_mouse:
  "mouse (rwebinput_input_poll h r) =
     (mouse r)\<lparr>delta_x := pending_delta_x (mouse r), delta_y := pending_delta_y (mouse r),
               pending_delta_x := 0, pending_delta_y := 0,
               scroll_x := pending_scroll_x (mouse r), scroll_y := pending_scroll_y (mouse r),
               pending_scroll_x := 0, pending_scroll_y := 0\<rparr>"
  by (simp add: rwebinput_input_poll_def Let_def poll_keyboard_events_frame)

lemma mouse_query:
  "rwebinput_input_state h tbl r port RETRO_DEVICE_MOUSE idx RETRO_DEVICE_ID_MOUSE_X
     = ucast (delta_x (mouse r))"
  by (simp add: rwebinput_input_state_def rwebinput_mouse_state_def RETRO_DEVICE_MOUSE_def
      RETRO_DEVICE_JOYPAD_def RETRO_DEVICE_ANALOG_def RETRO_DEVICE_KEYBOARD_def
      RARCH_DEVICE_MOUSE_SCREEN_def RETRO_DEVICE_ID_MOUSE_X_def)

text \<open>
  C2. After \<open>rwebinput_input_poll\<close>, from every driver state, the pending motion
  delta and the pending scroll counters are zero.
\<close>

theorem poll_clears_pending:
  "pending_delta_x (mouse (rwebinput_input_poll h r)) = 0 \<and>
   pending_delta_y (mouse (rwebinput_input_poll h r)) = 0 \<and>
   pending_scroll_x (mouse (rwebinput_input_poll h r)) = 0 \<and>
   pending_scroll_y (mouse (rwebinput_input_poll h r)) = 0"
  by (simp add: poll_mouse)

text \<open>
  C1. From the zeroed driver state, two mousemove events with \<open>movementX = 3\<close> and
  \<open>movementX = 4\<close> (their other fields are arbitrary): the query
  \<open>state(MOUSE, X)\<close> returns 0 before a poll, 7 after one poll, and 0 after a second
  poll. The query is a function of the state alone, so a repeated query with no event
  in between returns the same 7.
\<close>

theorem mouse_delta_double_buffered:
  fixes h :: host
  shows
  "(let r2 = rwebinput_mouse_cb EMSCRIPTEN_EVENT_MOUSEMOVE (ev2\<lparr>movementX := 4\<rparr>)
               (rwebinput_mouse_cb EMSCRIPTEN_EVENT_MOUSEMOVE (ev1\<lparr>movementX := 3\<rparr>)
                 (calloc_rwebinput_input :: ('d::{zero,ord}) rwebinput_input));
        query = (\<lambda>r. sint (rwebinput_input_state h tbl r port RETRO_DEVICE_MOUSE idx
                               RETRO_DEVICE_ID_MOUSE_X))
    in query r2 = 0 \<and>
       query (rwebinput_input_poll h r2) = 7 \<and>
       query (rwebinput_input_poll h (rwebinput_input_poll h r2)) = 0)"
  by (simp add: mouse_query poll_mouse rwebinput_mouse_cb_def
      calloc_rwebinput_input_def Let_def)

section \<open>The keyboard queue: proofs\<close>

lemma strnlen_whole_buffer:
  "take (strnlen str (length str)) str = takeWhile (\<lambda>c. c \<noteq> CHR 0x00) str"
  by (simp add: strnlen_def takeWhile_eq_take [symmetric])

lemma process_keyboard_events_keys:
  "keys (rwebinput_process_keyboard_events h r ev) = apply_record h (keys r) ev"
  by (simp add: rwebinput_process_keyboard_events_def apply_record_def resolve_key_def
      strnlen_whole_buffer Let_def word_less_nat_alt)

lemma poll_keyboard_events_keys:
  "keys (poll_keyboard_events h r evs) = net_effect h (keys r) evs"
  by (induction evs arbitrary: r) (simp_all add: net_effect_def process_keyboard_events_keys)

lemma length_apply_record: "length (apply_record h tab ev) = length tab"
  by (simp add: apply_record_def split: option.splits)

lemma length_net_effect: "length (net_effect h tab evs) = length tab"
  by (induction evs arbitrary: tab) (simp_all add: net_effect_def length_apply_record)

lemma net_effect_last_record:
  assumes "k < length tab"
  shows "net_effect h tab evs ! k =
           (case last_record_for h k evs of
              None \<Rightarrow> tab ! k
            | Some ev \<Rightarrow> type ev = EMSCRIPTEN_EVENT_KEYDOWN)"
proof (induction evs rule: rev_induct)
  case Nil
  show ?case by (simp add: net_effect_def last_record_for_def)
next
  case (snoc ev evs)
  have step: "net_effect h tab (evs @ [ev]) = apply_record h (net_effect h tab evs) ev"
    by (simp add: net_effect_def)
  have l: "k < length (net_effect h tab evs)"
    using assms by (simp add: length_net_effect)
  show ?case
  proof (cases "resolve_key h ev = Some k")
    case True
    then show ?thesis
      using l by (simp add: step apply_record_def last_record_for_def)
  next
    case False
    then have "apply_record h (net_effect h tab evs) ev ! k = net_effect h tab evs ! k"
      by (cases "resolve_key h ev") (simp_all add: apply_record_def)
    with False snoc show ?thesis
      by (simp add: step last_record_for_def)
  qed
qed

lemma poll_keys:
  "keys (rwebinput_input_poll h r) =
     net_effect h (keys r) (take (count (keyboard r)) (events (keyboard r)))"
  by (simp add: rwebinput_input_poll_def Let_def poll_keyboard_events_keys)

lemma poll_count: "count (keyboard (rwebinput_input_poll h r)) = 0"
  by (simp add: rwebinput_input_poll_def Let_def)


text \<open>
  C3. The queued records are the first \<open>count\<close> entries of the array of the queue.
  After \<open>rwebinput_input_poll\<close> the key-down table is the table before the poll with
  these records applied first to last, each record as the specification resolves it
  (\<open>net_effect\<close>), and the count of the queue is zero. Said per key: a key of the
  table holds what the last record that resolves to it says (true for a keydown,
  false otherwise), and its old value when no record resolves to it.
\<close>

theorem poll_applies_queue_in_order:
  fixes r :: "('d::zero) rwebinput_input"
  shows
  "(let queue = take (count (keyboard r)) (events (keyboard r));
        r' = rwebinput_input_poll h r
    in keys r' = net_effect h (keys r) queue \<and>
       count (keyboard r') = 0 \<and>
       (\<forall>k < length (keys r).
          keys r' ! k =
            (case last_record_for h k queue of
               None \<Rightarrow> keys r ! k
             | Some ev \<Rightarrow> type ev = EMSCRIPTEN_EVENT_KEYDOWN)))"
  by (simp add: Let_def poll_keys poll_count net_effect_last_record)

theorem poll_applies_queue_in_order_witness:
  "(let r = (calloc_rwebinput_input :: real rwebinput_input)
             \<lparr>keyboard := \<lparr>events = [arrow_left_record EMSCRIPTEN_EVENT_KEYUP,
                                       arrow_left_record EMSCRIPTEN_EVENT_KEYDOWN,
                                       arrow_left_record EMSCRIPTEN_EVENT_KEYUP],
                            count = 2, max_size = 3\<rparr>\<rparr>;
        r' = rwebinput_input_poll example_host r
    in unat RETROK_LEFT < length (keys r) \<and>
       \<not> keys r ! unat RETROK_LEFT \<and>
       keys r' ! unat RETROK_LEFT \<and>
       count (keyboard r') = 0)"
proof -
  define r where "r = (calloc_rwebinput_input :: real rwebinput_input)
             \<lparr>keyboard := \<lparr>events = [arrow_left_record EMSCRIPTEN_EVENT_KEYUP,
                                       arrow_left_record EMSCRIPTEN_EVENT_KEYDOWN,
                                       arrow_left_record EMSCRIPTEN_EVENT_KEYUP],
                            count = 2, max_size = 3\<rparr>\<rparr>"
  have len: "unat RETROK_LEFT < length (keys r)"
    by (simp add: r_def calloc_rwebinput_input_def RETROK_LEFT_def RETROK_LAST_def)
  have old: "\<not> keys r ! unat RETROK_LEFT"
    by (simp add: r_def calloc_rwebinput_input_def RETROK_LEFT_def RETROK_LAST_def)
  have res: "resolve_key example_host (arrow_left_record ty) = Some (unat RETROK_LEFT)" for ty
    by (simp add: resolve_key_def example_host_def arrow_left_record_def
        RETROK_LEFT_def RETROK_LAST_def RETROK_UNKNOWN_def)
  have q: "take (count (keyboard r)) (events (keyboard r)) =
             [arrow_left_record EMSCRIPTEN_EVENT_KEYUP, arrow_left_record EMSCRIPTEN_EVENT_KEYDOWN]"
    by (simp add: r_def)
  have "last_record_for example_host (unat RETROK_LEFT)
          (take (count (keyboard r)) (events (keyboard r)))
        = Some (arrow_left_record EMSCRIPTEN_EVENT_KEYDOWN)"
    unfolding q by (simp add: last_record_for_def res)
  moreover have "\<forall>k < length (keys r).
      keys (rwebinput_input_poll example_host r) ! k =
        (case last_record_for example_host k (take (count (keyboard r)) (events (keyboard r))) of
           None \<Rightarrow> keys r ! k
         | Some ev \<Rightarrow> type ev = EMSCRIPTEN_EVENT_KEYDOWN)"
    using poll_applies_queue_in_order [of r example_host] unfolding Let_def by blast
  ultimately have "keys (rwebinput_input_poll example_host r) ! unat RETROK_LEFT =
      (type (arrow_left_record EMSCRIPTEN_EVENT_KEYDOWN) = EMSCRIPTEN_EVENT_KEYDOWN)"
    using len by simp
  then have "keys (rwebinput_input_poll example_host r) ! unat RETROK_LEFT"
    by (simp add: arrow_left_record_def)
  moreover have "count (keyboard (rwebinput_input_poll example_host r)) = 0"
    using poll_applies_queue_in_order [of r example_host] unfolding Let_def by blast
  ultimately show ?thesis
    using len old unfolding r_def by (simp add: Let_def)
qed

section \<open>Joypad and analog queries: proofs\<close>

lemma joypad_mask_step_bit:
  assumes "i < 16" "j < 16"
  shows "bit (joypad_mask_step tbl port ret i) j \<longleftrightarrow>
           bit ret j \<or> (j = i \<and> is_pressed_hehe tbl port (of_nat i) \<noteq> 0)"
  using assms by (auto simp: joypad_mask_step_def bit_simps)

lemma joypad_mask_fold_bit:
  assumes "\<forall>i \<in> set ns. i < 16" "j < 16"
  shows "bit (foldl (joypad_mask_step tbl port) ret ns) j \<longleftrightarrow>
           bit ret j \<or> (j \<in> set ns \<and> is_pressed_hehe tbl port (of_nat j) \<noteq> 0)"
  using assms
proof (induction ns arbitrary: ret)
  case Nil
  then show ?case by simp
next
  case (Cons n ns)
  then show ?case by (auto simp: joypad_mask_step_bit)
qed

lemma joypad_mask_bit:
  assumes "j < unat RARCH_FIRST_CUSTOM_BIND"
  shows "bit (joypad_mask tbl port) j \<longleftrightarrow> is_pressed_hehe tbl port (of_nat j) \<noteq> 0"
proof -
  have j: "j < 16" using assms by (simp add: RARCH_FIRST_CUSTOM_BIND_def)
  have "\<forall>i \<in> set [0 ..< 16]. i < 16" by simp
  from joypad_mask_fold_bit [OF this j, of tbl port 0] j
  show ?thesis by (simp add: joypad_mask_def RARCH_FIRST_CUSTOM_BIND_def)
qed

lemma joypad_query:
  "rwebinput_input_state h tbl r port RETRO_DEVICE_JOYPAD idx ident =
     (if ident = RETRO_DEVICE_ID_JOYPAD_MASK then joypad_mask tbl port
      else if ident < RARCH_BIND_LIST_END h \<and> is_pressed_hehe tbl port ident \<noteq> 0 then 1
      else 0)"
  by (simp add: rwebinput_input_state_def)

lemma analog_query:
  "rwebinput_input_state h tbl r port RETRO_DEVICE_ANALOG idx ident =
     analog_state h tbl port idx ident"
  by (simp add: rwebinput_input_state_def RETRO_DEVICE_ANALOG_def RETRO_DEVICE_JOYPAD_def)

text \<open>
  On a table whose flags are 0 or 1 every read is 0 or 1; the initial table is such a
  table, and a write of 0 or 1 keeps it one.
\<close>

lemma is_pressed_loop_boolean:
  assumes "flags_boolean tbl"
  shows "is_pressed_loop tbl user ident = 0 \<or> is_pressed_loop tbl user ident = 1"
  using assms
  by (induction tbl) (auto simp: flags_boolean_def row_flags_boolean_def)

lemma is_pressed_boolean:
  assumes "flags_boolean tbl"
  shows "is_pressed_hehe tbl user ident = 0 \<or> is_pressed_hehe tbl user ident = 1"
  using is_pressed_loop_boolean [OF assms] by (simp add: is_pressed_hehe_def)

lemma flags_boolean_stuff: "flags_boolean stuff"
  by (simp add: flags_boolean_def row_flags_boolean_def stuff_def stuff_row_def)

lemma flags_boolean_simulate_input:
  assumes "flags_boolean tbl" "down_v = 0 \<or> down_v = 1"
  shows "flags_boolean (simulate_input user key_v down_v tbl)"
  using assms
  by (induction tbl) (auto simp: flags_boolean_def row_flags_boolean_def set_down_def)


text \<open>
  C5. The joypad query, for every port, table and driver state. With the id
  \<open>RETRO_DEVICE_ID_JOYPAD_MASK\<close>, bit \<open>i\<close> of the result is set exactly when
  \<open>is_pressed_hehe(port, i)\<close> is not zero, for every \<open>i\<close> below
  \<open>RARCH_FIRST_CUSTOM_BIND\<close>. With an id below \<open>RARCH_BIND_LIST_END\<close> the result is
  1 when \<open>is_pressed_hehe(port, id)\<close> is not zero and 0 otherwise. The bind list of
  the host ends below the id of the mask query, as in RetroArch.
\<close>

theorem joypad_state_reads_table:
  assumes "RARCH_BIND_LIST_END h \<le> RETRO_DEVICE_ID_JOYPAD_MASK"
  shows "(\<forall>i < unat RARCH_FIRST_CUSTOM_BIND.
            bit (rwebinput_input_state h tbl r port RETRO_DEVICE_JOYPAD idx
                   RETRO_DEVICE_ID_JOYPAD_MASK) i
              \<longleftrightarrow> is_pressed_hehe tbl port (of_nat i) \<noteq> 0) \<and>
         (\<forall>ident < RARCH_BIND_LIST_END h.
            rwebinput_input_state h tbl r port RETRO_DEVICE_JOYPAD idx ident =
              (if is_pressed_hehe tbl port ident \<noteq> 0 then 1 else 0))"
proof -
  have "ident \<noteq> RETRO_DEVICE_ID_JOYPAD_MASK" if "ident < RARCH_BIND_LIST_END h" for ident
    using that assms by auto
  then show ?thesis
    by (simp add: joypad_query joypad_mask_bit)
qed

theorem joypad_state_reads_table_witness:
  "(let tbl = simulate_input 0 4 1 stuff;
        query = rwebinput_input_state example_host tbl
                  (calloc_rwebinput_input :: real rwebinput_input) 0 RETRO_DEVICE_JOYPAD 0
    in RARCH_BIND_LIST_END example_host \<le> RETRO_DEVICE_ID_JOYPAD_MASK \<and>
       4 < unat RARCH_FIRST_CUSTOM_BIND \<and>
       is_pressed_hehe tbl 0 4 = 1 \<and>
       bit (query RETRO_DEVICE_ID_JOYPAD_MASK) 4 \<and>
       \<not> bit (query RETRO_DEVICE_ID_JOYPAD_MASK) 5 \<and>
       query 4 = 1 \<and> query 5 = 0)"
proof -
  define tbl where "tbl = simulate_input 0 4 1 stuff"
  define q where "q = rwebinput_input_state example_host tbl
                  (calloc_rwebinput_input :: real rwebinput_input) 0 RETRO_DEVICE_JOYPAD 0"
  have h: "RARCH_BIND_LIST_END example_host \<le> RETRO_DEVICE_ID_JOYPAD_MASK"
    by (simp add: example_host_def RETRO_DEVICE_ID_JOYPAD_MASK_def)
  have p4: "is_pressed_hehe tbl 0 4 = 1" and p5: "is_pressed_hehe tbl 0 5 = 0"
    by (simp_all add: tbl_def is_pressed_hehe_def stuff_def stuff_row_def set_down_def word_sle_eq)
  note t = joypad_state_reads_table [OF h, of tbl "calloc_rwebinput_input :: real rwebinput_input" 0 0]
  from t have bits: "\<forall>i < unat RARCH_FIRST_CUSTOM_BIND.
          bit (q RETRO_DEVICE_ID_JOYPAD_MASK) i \<longleftrightarrow> is_pressed_hehe tbl 0 (of_nat i) \<noteq> 0"
    and ids: "\<forall>ident < RARCH_BIND_LIST_END example_host.
          q ident = (if is_pressed_hehe tbl 0 ident \<noteq> 0 then 1 else 0)"
    unfolding q_def by blast+
  have n: "4 < unat RARCH_FIRST_CUSTOM_BIND" "5 < unat RARCH_FIRST_CUSTOM_BIND"
    by (simp_all add: RARCH_FIRST_CUSTOM_BIND_def)
  have b4: "bit (q RETRO_DEVICE_ID_JOYPAD_MASK) 4"
    using bits [rule_format, OF n(1)] p4 by simp
  have b5: "\<not> bit (q RETRO_DEVICE_ID_JOYPAD_MASK) 5"
    using bits [rule_format, OF n(2)] p5 by simp
  have l: "(4 :: c_unsigned) < RARCH_BIND_LIST_END example_host"
    "(5 :: c_unsigned) < RARCH_BIND_LIST_END example_host"
    by (simp_all add: example_host_def)
  have q4: "q 4 = 1" using ids [rule_format, OF l(1)] p4 by simp
  have q5: "q 5 = 0" using ids [rule_format, OF l(2)] p5 by simp
  show ?thesis
    using h n(1) p4 b4 b5 q4 q5 unfolding Let_def tbl_def q_def by blast
qed

lemma take_bit_16_of_32_diff:
  "take_bit 16 (take_bit 32 a - take_bit 32 b) = take_bit 16 (a - b :: int)"
proof -
  have "take_bit 16 (take_bit 32 a - take_bit 32 b) =
        take_bit 16 (take_bit 16 (take_bit 32 a) - take_bit 16 (take_bit 32 b))"
    by (simp only: take_bit_diff)
  also have "\<dots> = take_bit 16 (take_bit 16 a - take_bit 16 b)"
    by simp
  also have "\<dots> = take_bit 16 (a - b)"
    by (simp only: take_bit_diff)
  finally show ?thesis .
qed

lemma cut16_diff: "(ucast (a - b :: c_int) :: int16_t) = ucast a - ucast b"
  by transfer (simp add: take_bit_16_of_32_diff)

lemma cut16_widen: "(ucast (scast (r :: int16_t) :: c_int) :: int16_t) = r"
  by (rule bit_word_eqI) (auto simp: bit_simps)

lemma analog_state_cut:
  assumes "input_conv_analog_id_to_bind_id h idx ident = (id_minus, id_plus)"
  shows "analog_state h tbl port idx ident =
           ucast (is_pressed_hehe tbl port id_plus) - ucast (is_pressed_hehe tbl port id_minus)"
  by (simp add: analog_state_def assms Let_def cut16_diff cut16_widen)

text \<open>
  C6, as the code has it. \<open>simulate_input\<close> stores the \<open>int\<close> it is given and
  the analog query copies the raw flags, so for every port, index, id and table the
  result is \<open>is_pressed_hehe(port, id_plus) - is_pressed_hehe(port, id_minus)\<close> cut
  to the 16 bits of \<open>int16_t\<close>, for the pair the host's macro gives for the index and
  the id. When both reads are 0 or 1 the result is their difference, and it is -1, 0
  or 1.
\<close>

theorem analog_state_cut_difference:
  assumes "input_conv_analog_id_to_bind_id h idx ident = (id_minus, id_plus)"
      and "pv = is_pressed_hehe tbl port id_plus"
      and "mv = is_pressed_hehe tbl port id_minus"
  shows "rwebinput_input_state h tbl r port RETRO_DEVICE_ANALOG idx ident = ucast pv - ucast mv \<and>
         ((pv = 0 \<or> pv = 1) \<and> (mv = 0 \<or> mv = 1) \<longrightarrow>
            sint (rwebinput_input_state h tbl r port RETRO_DEVICE_ANALOG idx ident)
              = sint pv - sint mv \<and>
            sint (rwebinput_input_state h tbl r port RETRO_DEVICE_ANALOG idx ident)
              \<in> {- 1, 0, 1})"
proof -
  have c: "rwebinput_input_state h tbl r port RETRO_DEVICE_ANALOG idx ident =
             ucast pv - ucast mv"
    by (simp add: analog_query analog_state_cut [OF assms(1)] assms(2,3))
  show ?thesis
    unfolding c by auto
qed

theorem analog_state_cut_difference_witness:
  "(let plus_down = simulate_input 1 16 1 stuff;
        minus_down = simulate_input 1 17 1 stuff;
        both_down = simulate_input 1 17 1 plus_down;
        plus_two = simulate_input 1 16 2 stuff;
        query = (\<lambda>tbl. sint (rwebinput_input_state example_host tbl
                  (calloc_rwebinput_input :: real rwebinput_input) 1 RETRO_DEVICE_ANALOG 0 0))
    in input_conv_analog_id_to_bind_id example_host 0 0 = (17, 16) \<and>
       flags_boolean plus_down \<and> flags_boolean minus_down \<and> flags_boolean both_down \<and>
       query plus_down = 1 \<and> query minus_down = - 1 \<and> query both_down = 0 \<and>
       query plus_two = 2)"
proof -
  define plus_down where "plus_down = simulate_input 1 16 1 stuff"
  define minus_down where "minus_down = simulate_input 1 17 1 stuff"
  define both_down where "both_down = simulate_input 1 17 1 plus_down"
  define plus_two where "plus_two = simulate_input 1 16 2 stuff"
  have one: "(1 :: c_int) = 0 \<or> (1 :: c_int) = 1" by simp
  have f: "flags_boolean plus_down" "flags_boolean minus_down" "flags_boolean both_down"
    unfolding plus_down_def minus_down_def both_down_def
    by (intro flags_boolean_simulate_input flags_boolean_stuff one)+
  have c: "input_conv_analog_id_to_bind_id example_host 0 0 = (17, 16)"
    by (simp add: example_host_def)
  have reads:
    "is_pressed_hehe plus_down 1 16 = 1" "is_pressed_hehe plus_down 1 17 = 0"
    "is_pressed_hehe minus_down 1 16 = 0" "is_pressed_hehe minus_down 1 17 = 1"
    "is_pressed_hehe both_down 1 16 = 1" "is_pressed_hehe both_down 1 17 = 1"
    "is_pressed_hehe plus_two 1 16 = 2" "is_pressed_hehe plus_two 1 17 = 0"
    by (simp_all add: plus_down_def minus_down_def both_down_def plus_two_def
        is_pressed_hehe_def stuff_def stuff_row_def set_down_def word_sle_eq)
  note t = analog_state_cut_difference [OF c refl refl,
      of _ "calloc_rwebinput_input :: real rwebinput_input" 1]
  from t [of plus_down] t [of minus_down] t [of both_down] t [of plus_two] reads f c
  show ?thesis
    unfolding Let_def plus_down_def [symmetric] minus_down_def [symmetric]
      both_down_def [symmetric] plus_two_def [symmetric]
    by simp
qed

text \<open>
  C6 as stated fails. After \<open>simulate_input(1, 16, 2)\<close> the analog query of port 1
  returns 2, which is not -1, 0 or 1. After \<open>simulate_input(1, 16, 65536)\<close> the read
  of the plus id is 65536 and the read of the minus id is 0, and the query returns 0,
  which is not their difference.
\<close>

theorem analog_state_not_difference:
  "(let plus_two = simulate_input 1 16 2 stuff;
        plus_big = simulate_input 1 16 65536 stuff;
        query = (\<lambda>tbl. sint (rwebinput_input_state example_host tbl
                  (calloc_rwebinput_input :: real rwebinput_input) 1 RETRO_DEVICE_ANALOG 0 0))
    in input_conv_analog_id_to_bind_id example_host 0 0 = (17, 16) \<and>
       query plus_two = 2 \<and>
       query plus_two \<notin> {- 1, 0, 1} \<and>
       sint (is_pressed_hehe plus_big 1 16) - sint (is_pressed_hehe plus_big 1 17) = 65536 \<and>
       query plus_big = 0 \<and>
       query plus_big \<noteq>
         sint (is_pressed_hehe plus_big 1 16) - sint (is_pressed_hehe plus_big 1 17))"
proof -
  define plus_two where "plus_two = simulate_input 1 16 2 stuff"
  define plus_big where "plus_big = simulate_input 1 16 65536 stuff"
  have c: "input_conv_analog_id_to_bind_id example_host 0 0 = (17, 16)"
    by (simp add: example_host_def)
  have reads:
    "is_pressed_hehe plus_two 1 16 = 2" "is_pressed_hehe plus_two 1 17 = 0"
    "is_pressed_hehe plus_big 1 16 = 65536" "is_pressed_hehe plus_big 1 17 = 0"
    by (simp_all add: plus_two_def plus_big_def
        is_pressed_hehe_def stuff_def stuff_row_def set_down_def word_sle_eq)
  have q: "rwebinput_input_state example_host tbl
             (calloc_rwebinput_input :: real rwebinput_input) 1 RETRO_DEVICE_ANALOG 0 0 =
           ucast (is_pressed_hehe tbl 1 16) - ucast (is_pressed_hehe tbl 1 17)" for tbl
    by (simp add: analog_query analog_state_cut [OF c])
  show ?thesis
    unfolding Let_def plus_two_def [symmetric] plus_big_def [symmetric]
    by (simp add: q reads c)
qed

section \<open>The touch state machine: proofs\<close>

lemma touchend_button_clear:
  assumes "\<not> bit (buttons (mouse r)) 0"
  shows "\<not> bit (buttons (mouse (rwebinput_touch_cb EMSCRIPTEN_EVENT_TOUCHEND ev r))) 0"
  using assms
  by (auto simp: rwebinput_touch_cb_def touch_release_def touch_tap_start_def touch_press_def
      touch_tap_move_def Let_def bit_simps split: option.splits)

lemma touchmove_buttons:
  "buttons (mouse (rwebinput_touch_cb EMSCRIPTEN_EVENT_TOUCHMOVE ev r)) = buttons (mouse r)"
  by (auto simp: rwebinput_touch_cb_def touch_track_move_def touch_tap_start_def touch_press_def
      touch_tap_move_def Let_def split: option.splits)

lemma touchstart_new_sequence:
  assumes "changed_touch ev = Some ct" "last_touchdown_id (touch r) \<noteq> touch_identifier ct"
  shows "last_touchdown_id (touch (rwebinput_touch_cb EMSCRIPTEN_EVENT_TOUCHSTART ev r))
           = touch_identifier ct"
    and "last_touchdown_location (touch (rwebinput_touch_cb EMSCRIPTEN_EVENT_TOUCHSTART ev r))
           = canvasX ct + canvasY ct"
    and "\<not> clicked_yet (touch (rwebinput_touch_cb EMSCRIPTEN_EVENT_TOUCHSTART ev r))"
    and "buttons (mouse (rwebinput_touch_cb EMSCRIPTEN_EVENT_TOUCHSTART ev r))
           = buttons (mouse r)"
  using assms
  by (simp_all add: rwebinput_touch_cb_def touch_tap_start_def touch_press_def
      touch_tap_move_def touch_track_start_def Let_def)

lemma touchstart_same_finger_unarmed:
  assumes "changed_touch ev = Some ct" "last_touchdown_id (touch r) = touch_identifier ct"
    "\<not> clicked_yet (touch r)"
  shows "last_touchdown_id (touch (rwebinput_touch_cb EMSCRIPTEN_EVENT_TOUCHSTART ev r))
           = touch_identifier ct"
    and "last_touchdown_location (touch (rwebinput_touch_cb EMSCRIPTEN_EVENT_TOUCHSTART ev r))
           = last_touchdown_location (touch r)"
    and "\<not> clicked_yet (touch (rwebinput_touch_cb EMSCRIPTEN_EVENT_TOUCHSTART ev r))"
    and "buttons (mouse (rwebinput_touch_cb EMSCRIPTEN_EVENT_TOUCHSTART ev r))
           = buttons (mouse r)"
  using assms
  by (simp_all add: rwebinput_touch_cb_def touch_tap_start_def touch_press_def
      touch_tap_move_def touch_track_start_def Let_def)

lemma touchmove_invalidates:
  assumes "changed_touch ev = Some ct" "last_touchdown_id (touch r) = touch_identifier ct"
    "canvasX ct = 200" "canvasY ct = 200"
    "last_touchdown_location (touch r) = 200 \<or> last_touchdown_location (touch r) = 0"
  shows "last_touchdown_id (touch (rwebinput_touch_cb EMSCRIPTEN_EVENT_TOUCHMOVE ev r)) = - 1"
  using assms
  by (auto simp: rwebinput_touch_cb_def touch_tap_start_def touch_press_def
      touch_tap_move_def touch_track_move_def Let_def word_sless_alt)

text \<open>
  C8. A finger \<open>fid\<close> starts a tap sequence: its touchstart finds another finger in
  \<open>last_touchdown_id\<close> and the left button up, or it is the first event of a
  zeroed driver. After the touchstart at (100, 100) and a touchmove of the same finger
  to (200, 200) the tap is invalidated, \<open>last_touchdown_id = -1\<close>, and after these
  two events and after a touchend that follows (of any finger) bit 0 of the mouse
  buttons is 0.
\<close>

theorem drag_cancels_tap:
  fixes r :: "('d::zero) rwebinput_input"
  assumes ev1: "changed_touch ev1 =
                  Some (p1\<lparr>touch_identifier := fid, canvasX := 100, canvasY := 100\<rparr>)"
      and ev2: "changed_touch ev2 =
                  Some (p2\<lparr>touch_identifier := fid, canvasX := 200, canvasY := 200\<rparr>)"
      and start: "r = calloc_rwebinput_input \<or>
                  (last_touchdown_id (touch r) \<noteq> fid \<and> \<not> bit (buttons (mouse r)) 0)"
  shows "(let r1 = rwebinput_touch_cb EMSCRIPTEN_EVENT_TOUCHSTART ev1 r;
              r2 = rwebinput_touch_cb EMSCRIPTEN_EVENT_TOUCHMOVE ev2 r1;
              r3 = rwebinput_touch_cb EMSCRIPTEN_EVENT_TOUCHEND ev3 r2
          in last_touchdown_id (touch r2) = - 1 \<and>
             \<not> bit (buttons (mouse r1)) 0 \<and>
             \<not> bit (buttons (mouse r2)) 0 \<and>
             \<not> bit (buttons (mouse r3)) 0)"
proof -
  define r1 where "r1 = rwebinput_touch_cb EMSCRIPTEN_EVENT_TOUCHSTART ev1 r"
  define r2 where "r2 = rwebinput_touch_cb EMSCRIPTEN_EVENT_TOUCHMOVE ev2 r1"
  define r3 where "r3 = rwebinput_touch_cb EMSCRIPTEN_EVENT_TOUCHEND ev3 r2"
  have up: "\<not> bit (buttons (mouse r)) 0"
    using start by (auto simp: calloc_rwebinput_input_def)
  have s1: "last_touchdown_id (touch r1) = fid \<and>
            (last_touchdown_location (touch r1) = 100 + 100 \<or>
             last_touchdown_location (touch r1) = 0) \<and>
            buttons (mouse r1) = buttons (mouse r)"
  proof (cases "last_touchdown_id (touch r) = fid")
    case False
    then show ?thesis
      using touchstart_new_sequence [OF ev1, of r] by (simp add: r1_def)
  next
    case True
    with start have c: "r = calloc_rwebinput_input" by blast
    then have "\<not> clicked_yet (touch r)" "last_touchdown_location (touch r) = 0"
      by (simp_all add: calloc_rwebinput_input_def)
    then show ?thesis
      using touchstart_same_finger_unarmed [OF ev1, of r] True by (simp add: r1_def)
  qed
  have s2: "last_touchdown_id (touch r2) = - 1"
    unfolding r2_def by (rule touchmove_invalidates [OF ev2]) (use s1 in simp_all)
  have b1: "\<not> bit (buttons (mouse r1)) 0" using s1 up by simp
  have b2: "\<not> bit (buttons (mouse r2)) 0" using b1 by (simp add: r2_def touchmove_buttons)
  have b3: "\<not> bit (buttons (mouse r3)) 0"
    unfolding r3_def by (rule touchend_button_clear [OF b2])
  show ?thesis
    using s2 b1 b2 b3 unfolding Let_def r1_def r2_def r3_def by blast
qed

theorem drag_cancels_tap_witness:
  "(let r = (calloc_rwebinput_input :: real rwebinput_input);
        r1 = rwebinput_touch_cb EMSCRIPTEN_EVENT_TOUCHSTART (one_finger_event 0 100 100) r;
        r2 = rwebinput_touch_cb EMSCRIPTEN_EVENT_TOUCHMOVE (one_finger_event 0 200 200) r1;
        r3 = rwebinput_touch_cb EMSCRIPTEN_EVENT_TOUCHEND (one_finger_event 0 200 200) r2
    in last_touchdown_id (touch r2) = - 1 \<and>
       \<not> bit (buttons (mouse r1)) 0 \<and>
       \<not> bit (buttons (mouse r2)) 0 \<and>
       \<not> bit (buttons (mouse r3)) 0 \<and>
       mouse_x (mouse r3) = 200 \<and> pending_delta_x (mouse r3) = 100)"
proof -
  have e: "changed_touch (one_finger_event fid px py) =
      Some (\<lparr>touch_identifier = fid, isChanged = True, canvasX = px, canvasY = py\<rparr>
              \<lparr>touch_identifier := fid, canvasX := px, canvasY := py\<rparr>)" for fid px py
    by (simp add: changed_touch_def one_finger_event_def)
  have c: "(calloc_rwebinput_input :: real rwebinput_input) = calloc_rwebinput_input \<or>
      (last_touchdown_id (touch (calloc_rwebinput_input :: real rwebinput_input)) \<noteq> 0 \<and>
       \<not> bit (buttons (mouse (calloc_rwebinput_input :: real rwebinput_input))) 0)"
    by simp
  have m: "(let r = (calloc_rwebinput_input :: real rwebinput_input);
        r1 = rwebinput_touch_cb EMSCRIPTEN_EVENT_TOUCHSTART (one_finger_event 0 100 100) r;
        r2 = rwebinput_touch_cb EMSCRIPTEN_EVENT_TOUCHMOVE (one_finger_event 0 200 200) r1;
        r3 = rwebinput_touch_cb EMSCRIPTEN_EVENT_TOUCHEND (one_finger_event 0 200 200) r2
    in mouse_x (mouse r3) = 200 \<and> pending_delta_x (mouse r3) = 100)"
    by (simp add: Let_def rwebinput_touch_cb_def changed_touch_def one_finger_event_def
        touch_tap_start_def touch_press_def touch_tap_move_def touch_track_start_def
        touch_track_move_def touch_release_def calloc_rwebinput_input_def word_sless_alt)
  from drag_cancels_tap [OF e e c, of "one_finger_event 0 200 200"] m
  show ?thesis unfolding Let_def by blast
qed

section \<open>Events of a finger that is not tracked: proofs\<close>

lemma press_keeps_other_buttons: "(b OR 1) OR 1 = b OR (1 :: uint8_t)"
  by (simp add: or.assoc)

lemma release_keeps_other_buttons: "(b AND NOT 1) OR 1 = b OR (1 :: uint8_t)"
  by (rule bit_word_eqI) (auto simp: bit_simps)

lemma release_keeps_other_buttons': "(b AND - 2) OR 1 = b OR (1 :: uint8_t)"
proof -
  have "(- 2 :: uint8_t) = NOT 1" by simp
  then show ?thesis by (simp only: release_keeps_other_buttons)
qed

text \<open>
  C9, as the code has it. An event whose selected point is not the tracked finger,
  while a finger is tracked, leaves the tracking of the finger (\<open>down\<close>,
  \<open>touch_id\<close>, the last position), the mouse position, the deltas, the scroll
  counters, every button but bit 0, the keyboard queue and the key table as they were.
  The fields of the tap sequence (\<open>last_touchdown_id\<close>,
  \<open>last_touchdown_location\<close>, \<open>clicked_yet\<close>) and bit 0 of the buttons are
  handled before the guard of the tracked finger and can change.
\<close>

theorem untracked_finger_keeps_tracking:
  assumes "changed_touch ev = Some ct"
      and "down (touch r)"
      and "touch_identifier ct \<noteq> touch_id (touch r)"
  shows "(let r' = rwebinput_touch_cb event_type ev r
          in down (touch r') \<and>
             touch_id (touch r') = touch_id (touch r) \<and>
             last_canvasX (touch r') = last_canvasX (touch r) \<and>
             last_canvasY (touch r') = last_canvasY (touch r) \<and>
             mouse r' = (mouse r)\<lparr>buttons := buttons (mouse r')\<rparr> \<and>
             buttons (mouse r') OR 1 = buttons (mouse r) OR 1 \<and>
             keyboard r' = keyboard r \<and>
             keys r' = keys r)"
  using assms
  by (cases event_type)
    (auto simp: rwebinput_touch_cb_def touch_release_def touch_tap_start_def touch_press_def
      touch_tap_move_def Let_def press_keeps_other_buttons release_keeps_other_buttons')


lemma changed_touch_one_finger:
  "changed_touch (one_finger_event fid px py) =
     Some \<lparr>touch_identifier = fid, isChanged = True, canvasX = px, canvasY = py\<rparr>"
  by (simp add: changed_touch_def one_finger_event_def)

lemma first_finger_tracked:
  "(let r1 = rwebinput_touch_cb EMSCRIPTEN_EVENT_TOUCHSTART (one_finger_event 0 100 100)
               (calloc_rwebinput_input :: real rwebinput_input)
    in down (touch r1) \<and> touch_id (touch r1) = 0 \<and> last_touchdown_id (touch r1) = 0 \<and>
       last_canvasX (touch r1) = 100 \<and> \<not> clicked_yet (touch r1) \<and> buttons (mouse r1) = 0)"
  by (simp add: Let_def rwebinput_touch_cb_def changed_touch_one_finger
      touch_tap_start_def touch_press_def touch_tap_move_def touch_track_start_def
      calloc_rwebinput_input_def)

theorem untracked_finger_keeps_tracking_witness:
  "(let r1 = rwebinput_touch_cb EMSCRIPTEN_EVENT_TOUCHSTART (one_finger_event 0 100 100)
               (calloc_rwebinput_input :: real rwebinput_input);
        ev = one_finger_event 1 50 50;
        r' = rwebinput_touch_cb EMSCRIPTEN_EVENT_TOUCHSTART ev r1
    in down (touch r1) \<and> touch_id (touch r1) = 0 \<and>
       changed_touch ev =
         Some \<lparr>touch_identifier = 1, isChanged = True, canvasX = 50, canvasY = 50\<rparr> \<and>
       down (touch r') \<and> touch_id (touch r') = 0 \<and> last_canvasX (touch r') = 100 \<and>
       mouse r' = (mouse r1)\<lparr>buttons := buttons (mouse r')\<rparr> \<and>
       keyboard r' = keyboard r1 \<and> keys r' = keys r1)"
proof -
  define r1 where "r1 = rwebinput_touch_cb EMSCRIPTEN_EVENT_TOUCHSTART (one_finger_event 0 100 100)
               (calloc_rwebinput_input :: real rwebinput_input)"
  have f: "down (touch r1)" "touch_id (touch r1) = 0" "last_canvasX (touch r1) = 100"
    using first_finger_tracked unfolding Let_def r1_def by blast+
  have n: "touch_identifier \<lparr>touch_identifier = 1, isChanged = True, canvasX = 50, canvasY = 50\<rparr>
             \<noteq> touch_id (touch r1)"
    by (simp add: f)
  from untracked_finger_keeps_tracking [OF changed_touch_one_finger f(1) n,
      of EMSCRIPTEN_EVENT_TOUCHSTART] f
  show ?thesis
    unfolding Let_def r1_def [symmetric] by (simp add: changed_touch_one_finger)
qed

text \<open>
  C9 as stated fails. Finger 0 is down and tracked; a touchstart of finger 1 changes
  the driver state (it becomes the finger of the tap sequence), and after a touchend
  and a second touchstart of finger 1, still with finger 0 tracked, the left button
  is pressed.
\<close>

theorem untracked_finger_not_ignored:
  "(let r1 = rwebinput_touch_cb EMSCRIPTEN_EVENT_TOUCHSTART (one_finger_event 0 100 100)
               (calloc_rwebinput_input :: real rwebinput_input);
        ev = one_finger_event 1 50 50;
        r2 = rwebinput_touch_cb EMSCRIPTEN_EVENT_TOUCHSTART ev r1;
        r3 = rwebinput_touch_cb EMSCRIPTEN_EVENT_TOUCHEND ev r2;
        r4 = rwebinput_touch_cb EMSCRIPTEN_EVENT_TOUCHSTART ev r3
    in changed_touch ev =
         Some \<lparr>touch_identifier = 1, isChanged = True, canvasX = 50, canvasY = 50\<rparr> \<and>
       down (touch r1) \<and> touch_id (touch r1) = 0 \<and>
       r2 \<noteq> r1 \<and>
       last_touchdown_id (touch r1) = 0 \<and> last_touchdown_id (touch r2) = 1 \<and>
       down (touch r2) \<and> touch_id (touch r2) = 0 \<and>
       down (touch r3) \<and> touch_id (touch r3) = 0 \<and>
       \<not> bit (buttons (mouse r3)) 0 \<and> bit (buttons (mouse r4)) 0)"
proof -
  define r1 where "r1 = rwebinput_touch_cb EMSCRIPTEN_EVENT_TOUCHSTART (one_finger_event 0 100 100)
               (calloc_rwebinput_input :: real rwebinput_input)"
  define r2 where "r2 = rwebinput_touch_cb EMSCRIPTEN_EVENT_TOUCHSTART (one_finger_event 1 50 50) r1"
  define r3 where "r3 = rwebinput_touch_cb EMSCRIPTEN_EVENT_TOUCHEND (one_finger_event 1 50 50) r2"
  define r4 where "r4 = rwebinput_touch_cb EMSCRIPTEN_EVENT_TOUCHSTART (one_finger_event 1 50 50) r3"
  have f1: "down (touch r1)" "touch_id (touch r1) = 0" "last_touchdown_id (touch r1) = 0"
    "\<not> clicked_yet (touch r1)" "buttons (mouse r1) = 0"
    using first_finger_tracked unfolding Let_def r1_def by blast+
  have f2: "down (touch r2)" "touch_id (touch r2) = 0" "last_touchdown_id (touch r2) = 1"
    "\<not> clicked_yet (touch r2)" "buttons (mouse r2) = 0"
    using f1
    by (simp_all add: r2_def rwebinput_touch_cb_def changed_touch_one_finger
        touch_tap_start_def touch_press_def touch_tap_move_def)
  have f3: "down (touch r3)" "touch_id (touch r3) = 0" "last_touchdown_id (touch r3) = 1"
    "clicked_yet (touch r3)" "buttons (mouse r3) = 0"
    using f2
    by (simp_all add: r3_def rwebinput_touch_cb_def changed_touch_one_finger
        touch_tap_start_def touch_press_def touch_tap_move_def touch_release_def)
  have f4: "buttons (mouse r4) = 1"
    using f3
    by (simp add: r4_def rwebinput_touch_cb_def changed_touch_one_finger
        touch_tap_start_def touch_press_def touch_tap_move_def)
  have ne: "r2 \<noteq> r1" using f1(3) f2(3) by auto
  show ?thesis
    unfolding Let_def r1_def [symmetric] r2_def [symmetric] r3_def [symmetric]
      r4_def [symmetric]
    using f1 f2 f3 f4 ne by (simp add: changed_touch_one_finger)
qed

section \<open>The look-up table: proofs\<close>

text \<open>The CRCs of the code strings of the table, in the order of the table.\<close>

lemma key_crcs:
  "map (\<lambda>e. encoding_crc32 0 (key e)) rwebinput_key_to_code_map =
    [0xDC6BBA52, 0x4562EBE8, 0x3265DB7E, 0xAC014EDD, 0xDB067E4B, 0x420F2FF1, 0x35081F67,
     0xA5B702F6, 0xD2B03260, 0x4BB963DA, 0x3CBE534C, 0xA2DAC6EF, 0xD5DDF679, 0x4CD4A7C3,
     0x3BD39755, 0xB6DB9AA0, 0xC1DCAA36, 0x58D5FB8C, 0x2FD2CB1A, 0xB1B65EB9, 0xC6B16E2F,
     0x5FB83F95, 0x28BF0F03, 0xB8001292, 0xCF072204, 0x560E73BE, 0xF323421F, 0x7A22D52E,
     0x1FDAFF7B, 0x95BB354C, 0x78B1EF6A, 0xFE9228D0, 0x4BAE05EC, 0xC2609BC3, 0x3DBE79B1,
     0x38B17551, 0xD1E4A3EE, 0x524A5614, 0x9918E627, 0x9DFC2528, 0xF765BFD7, 0xE8B3EE3E,
     0x2244B5B8, 0xDFAAA197, 0x363B3364, 0xB624FA46, 0x2F2DABFC, 0x582A9B6A, 0xC64E0EC9,
     0xB1493E5F, 0x28406FE5, 0x5F475F73, 0xCFF842E2, 0xB8FF7274, 0x6BD21F7E, 0x1CD52FE8,
     0x85DC7E52, 0x3D544FAE, 0x4A537F38, 0xD35A2E82, 0xA45D1E14, 0x3A398BB7, 0x4D3EBB21,
     0xD437EA9B, 0xA330DA0D, 0x338FC79C, 0x4488F70A, 0x663AE9F5, 0xC46F4C38, 0xB6776150,
     0xC17051C6, 0x5879007C, 0x2F7E30EA, 0xB11AA549, 0xC61D95DF, 0x5F14C465, 0x2813F4F3,
     0xB8ACE962, 0xCFABD9F4, 0xC2141BF8, 0x5C5821C4, 0xB5EC15F8, 0x3D1100CC, 0x06D508A6,
     0xAF00B12B, 0xA5218D86, 0x62C1FCFC, 0x7F120A02, 0x165BBDE9, 0xAAB0E4F0, 0x10DD2E86,
     0xF9629873, 0xC60F68F5, 0x443257CE, 0xEF6A3AF3, 0x24A8216B, 0x13AD8607, 0x2D9DEB68,
     0x8E6A1D0D, 0x6949FD49, 0xC2F1AF46, 0xEF99D951, 0xF2DB4EC4, 0x6CBFDB67, 0x1BB8EBF1,
     0x3979DBEB, 0xC1C4ED77, 0xA8B5F392, 0x76A4B4F3, 0x6A4B2EA4]"
  by (simp add: rwebinput_key_to_code_map_def key_entry_def encoding_crc32_def
      crc32_byte_def crc32_shift_def)

lemma key_crcs_distinct:
  "distinct ([0xDC6BBA52, 0x4562EBE8, 0x3265DB7E, 0xAC014EDD, 0xDB067E4B, 0x420F2FF1, 0x35081F67,
     0xA5B702F6, 0xD2B03260, 0x4BB963DA, 0x3CBE534C, 0xA2DAC6EF, 0xD5DDF679, 0x4CD4A7C3,
     0x3BD39755, 0xB6DB9AA0, 0xC1DCAA36, 0x58D5FB8C, 0x2FD2CB1A, 0xB1B65EB9, 0xC6B16E2F,
     0x5FB83F95, 0x28BF0F03, 0xB8001292, 0xCF072204, 0x560E73BE, 0xF323421F, 0x7A22D52E,
     0x1FDAFF7B, 0x95BB354C, 0x78B1EF6A, 0xFE9228D0, 0x4BAE05EC, 0xC2609BC3, 0x3DBE79B1,
     0x38B17551, 0xD1E4A3EE, 0x524A5614, 0x9918E627, 0x9DFC2528, 0xF765BFD7, 0xE8B3EE3E,
     0x2244B5B8, 0xDFAAA197, 0x363B3364, 0xB624FA46, 0x2F2DABFC, 0x582A9B6A, 0xC64E0EC9,
     0xB1493E5F, 0x28406FE5, 0x5F475F73, 0xCFF842E2, 0xB8FF7274, 0x6BD21F7E, 0x1CD52FE8,
     0x85DC7E52, 0x3D544FAE, 0x4A537F38, 0xD35A2E82, 0xA45D1E14, 0x3A398BB7, 0x4D3EBB21,
     0xD437EA9B, 0xA330DA0D, 0x338FC79C, 0x4488F70A, 0x663AE9F5, 0xC46F4C38, 0xB6776150,
     0xC17051C6, 0x5879007C, 0x2F7E30EA, 0xB11AA549, 0xC61D95DF, 0x5F14C465, 0x2813F4F3,
     0xB8ACE962, 0xCFABD9F4, 0xC2141BF8, 0x5C5821C4, 0xB5EC15F8, 0x3D1100CC, 0x06D508A6,
     0xAF00B12B, 0xA5218D86, 0x62C1FCFC, 0x7F120A02, 0x165BBDE9, 0xAAB0E4F0, 0x10DD2E86,
     0xF9629873, 0xC60F68F5, 0x443257CE, 0xEF6A3AF3, 0x24A8216B, 0x13AD8607, 0x2D9DEB68,
     0x8E6A1D0D, 0x6949FD49, 0xC2F1AF46, 0xEF99D951, 0xF2DB4EC4, 0x6CBFDB67, 0x1BB8EBF1,
     0x3979DBEB, 0xC1C4ED77, 0xA8B5F392, 0x76A4B4F3, 0x6A4B2EA4] :: uint32_t list)"
  by simp

lemma key_table_length: "length rwebinput_key_to_code_map = 110"
  by (simp add: rwebinput_key_to_code_map_def)

lemma generate_lut_loop_no_collision:
  assumes "distinct (map km_sym built @ map (\<lambda>e. encoding_crc32 0 (key e)) es)"
  shows "generate_lut_loop es built =
           Inr (built @ map (\<lambda>e. \<lparr>km_sym = encoding_crc32 0 (key e), km_rk = rk e\<rparr>) es)"
  using assms
proof (induction es arbitrary: built)
  case Nil
  then show ?case by simp
next
  case (Cons e es)
  from Cons.prems have fresh: "encoding_crc32 0 (key e) \<notin> km_sym ` set built"
    by auto
  then have no: "\<not> list_ex (\<lambda>slot. km_sym slot = encoding_crc32 0 (key e)) built"
    unfolding list_ex_iff by (metis imageI)
  from Cons.prems
  have "distinct (map km_sym (built @ [\<lparr>km_sym = encoding_crc32 0 (key e), km_rk = rk e\<rparr>])
          @ map (\<lambda>e. encoding_crc32 0 (key e)) es)"
    by auto
  from Cons.IH [OF this] no show ?case by (simp add: Let_def)
qed

text \<open>
  C7. The CRCs of the code strings of \<open>rwebinput_key_to_code_map\<close> are pairwise
  distinct. So the collision assertion of \<open>rwebinput_generate_lut\<close> does not fire:
  when the array of the host has one slot more than the table (the first assertion),
  the function returns, and the array pairs the CRC of each code string with its retro
  key, in the order of the table, and ends with \<open>(0, RETROK_UNKNOWN)\<close>.
\<close>

theorem generate_lut_no_collision:
  assumes "rarch_key_map_rwebinput_size h = length rwebinput_key_to_code_map + 1"
  shows "distinct (map (\<lambda>e. encoding_crc32 0 (key e)) rwebinput_key_to_code_map) \<and>
         rwebinput_generate_lut h =
           Inr (map (\<lambda>e. \<lparr>km_sym = encoding_crc32 0 (key e), km_rk = rk e\<rparr>)
                  rwebinput_key_to_code_map
                @ [\<lparr>km_sym = 0, km_rk = RETROK_UNKNOWN\<rparr>])"
proof -
  have d: "distinct (map (\<lambda>e. encoding_crc32 0 (key e)) rwebinput_key_to_code_map)"
    unfolding key_crcs by (rule key_crcs_distinct)
  then have "distinct (map km_sym [] @
      map (\<lambda>e. encoding_crc32 0 (key e)) rwebinput_key_to_code_map)"
    by simp
  from generate_lut_loop_no_collision [OF this] d assms
  show ?thesis by (simp add: rwebinput_generate_lut_def)
qed

theorem generate_lut_no_collision_witness:
  "rarch_key_map_rwebinput_size example_host = length rwebinput_key_to_code_map + 1 \<and>
   (\<exists>lut. rwebinput_generate_lut example_host = Inr lut \<and>
          length lut = 111 \<and>
          hd lut = \<lparr>km_sym = 0xDC6BBA52, km_rk = RETROK_a\<rparr> \<and>
          last lut = \<lparr>km_sym = 0, km_rk = RETROK_UNKNOWN\<rparr>)"
proof -
  have s: "rarch_key_map_rwebinput_size example_host = length rwebinput_key_to_code_map + 1"
    by (simp add: example_host_def key_table_length)
  have a: "encoding_crc32 0 ''KeyA'' = 0xDC6BBA52"
    by (simp add: encoding_crc32_def crc32_byte_def crc32_shift_def)
  have "hd (map (\<lambda>e. \<lparr>km_sym = encoding_crc32 0 (key e), km_rk = rk e\<rparr>)
              rwebinput_key_to_code_map @ [\<lparr>km_sym = 0, km_rk = RETROK_UNKNOWN\<rparr>])
          = \<lparr>km_sym = 0xDC6BBA52, km_rk = RETROK_a\<rparr>"
    unfolding rwebinput_key_to_code_map_def by (simp add: key_entry_def a)
  with generate_lut_no_collision [OF s] s show ?thesis
    by (simp add: key_table_length)
qed

end
